theory Spec2Isabelle
  imports Main "HOL-Library.Sublist"
begin

section \<open>JavaScript values and built-ins used by the WPS adapter\<close>

text \<open>
  A value that may be \<^verbatim>\<open>undefined\<close> (or \<^verbatim>\<open>null\<close>) is an \<open>option\<close>;
  \<^verbatim>\<open>isDefined(v)\<close> of \<^verbatim>\<open>Core/isDefined\<close> is \<open>v \<noteq> None\<close>.
\<close>

definition isDefined :: "'a option \<Rightarrow> bool" where
  "isDefined v = (v \<noteq> None)"

text \<open>
  \<^verbatim>\<open>a || b\<close> on strings that may be undefined: the empty string and
  \<^verbatim>\<open>undefined\<close> are falsy.
\<close>

definition js_or :: "string option \<Rightarrow> string option \<Rightarrow> string option" where
  "js_or a b = (case a of None \<Rightarrow> b | Some s \<Rightarrow> if s = [] then b else Some s)"

text \<open>A value interpolated into a template string: \<^verbatim>\<open>`${v}`\<close>.\<close>

definition js_template :: "string option \<Rightarrow> string" where
  "js_template v = (case v of None \<Rightarrow> ''undefined'' | Some s \<Rightarrow> s)"

text \<open>
  \<^verbatim>\<open>s.indexOf(p)\<close>: the first position at which \<open>p\<close> occurs in \<open>s\<close>, or \<open>-1\<close>.
\<close>

fun indexOf_from :: "string \<Rightarrow> string \<Rightarrow> nat \<Rightarrow> int" where
  "indexOf_from p [] i = (if p = [] then int i else -1)"
| "indexOf_from p (c # cs) i = (if prefix p (c # cs) then int i else indexOf_from p cs (Suc i))"

definition indexOf :: "string \<Rightarrow> string \<Rightarrow> int" where
  "indexOf s p = indexOf_from p s 0"

text \<open>
  \<^verbatim>\<open>s.lastIndexOf(p)\<close>: the last position at which \<open>p\<close> occurs in \<open>s\<close>, or \<open>-1\<close>.
\<close>

fun lastIndexOf_from :: "string \<Rightarrow> string \<Rightarrow> nat \<Rightarrow> int \<Rightarrow> int" where
  "lastIndexOf_from p [] i found = (if p = [] then int i else found)"
| "lastIndexOf_from p (c # cs) i found =
     lastIndexOf_from p cs (Suc i) (if prefix p (c # cs) then int i else found)"

definition lastIndexOf :: "string \<Rightarrow> string \<Rightarrow> int" where
  "lastIndexOf s p = lastIndexOf_from p s 0 (-1)"

text \<open>\<^verbatim>\<open>s.substring(start)\<close>: a negative start counts as 0, one past the end gives the empty string.\<close>

definition substring :: "string \<Rightarrow> int \<Rightarrow> string" where
  "substring s start = drop (nat start) s"

subsection \<open>JSON values and \<^verbatim>\<open>JSON.stringify\<close>\<close>

text \<open>
  Numbers are JavaScript doubles; the model keeps them abstract (the type variable \<open>'n\<close>)
  and takes their text as a parameter.
\<close>

datatype 'n json =
    JNull
  | JBool bool
  | JNumber 'n
  | JString string
  | JArray "'n json list"
  | JObject "(string \<times> 'n json) list"

definition hexDigit :: "nat \<Rightarrow> char" where
  "hexDigit n = ''0123456789abcdef'' ! (n mod 16)"

text \<open>The escapes of \<^verbatim>\<open>QuoteJSONString\<close> for one character.\<close>

definition escapeJSONChar :: "char \<Rightarrow> string" where
  "escapeJSONChar c =
     (let n = (of_char c :: nat) in
      if n = 0x22 then [CHR 0x5C, CHR 0x22]
      else if n = 0x5C then [CHR 0x5C, CHR 0x5C]
      else if n = 8 then [CHR 0x5C, CHR ''b'']
      else if n = 9 then [CHR 0x5C, CHR ''t'']
      else if n = 10 then [CHR 0x5C, CHR ''n'']
      else if n = 12 then [CHR 0x5C, CHR ''f'']
      else if n = 13 then [CHR 0x5C, CHR ''r'']
      else if n < 32 then [CHR 0x5C] @ ''u00'' @ [hexDigit (n div 16), hexDigit n]
      else [c])"

definition quoteJSONString :: "string \<Rightarrow> string" where
  "quoteJSONString s = [CHR 0x22] @ concat (map escapeJSONChar s) @ [CHR 0x22]"

fun join_commas :: "string list \<Rightarrow> string" where
  "join_commas [] = []"
| "join_commas [x] = x"
| "join_commas (x # y # ys) = x @ '','' @ join_commas (y # ys)"

fun JSON_stringify :: "('n \<Rightarrow> string) \<Rightarrow> 'n json \<Rightarrow> string" where
  "JSON_stringify num JNull = ''null''"
| "JSON_stringify num (JBool b) = (if b then ''true'' else ''false'')"
| "JSON_stringify num (JNumber n) = num n"
| "JSON_stringify num (JString s) = quoteJSONString s"
| "JSON_stringify num (JArray xs) =
     ''['' @ join_commas (map (JSON_stringify num) xs) @ '']''"
| "JSON_stringify num (JObject kvs) =
     ''{'' @ join_commas (map (\<lambda>kv. quoteJSONString (fst kv) @ '':'' @ JSON_stringify num (snd kv)) kvs) @ ''}''"

text \<open>Reading a property of a JSON object (the first binding of the key).\<close>

definition json_get :: "'n json \<Rightarrow> string \<Rightarrow> 'n json option" where
  "json_get j k = (case j of JObject kvs \<Rightarrow> map_of kvs k | _ \<Rightarrow> None)"

section \<open>Data of the WPS adapter\<close>

subsection \<open>The parsed DescribeProcess document\<close>

text \<open>A property that \<^verbatim>\<open>xml2json\<close> gives as one value or as an array of them.\<close>

datatype 'a one_or_many = One 'a | Many "'a list"

text \<open>\<^verbatim>\<open>Array.isArray(v) || isObservableArray(v) ? v : [v]\<close>\<close>

fun as_array :: "'a one_or_many \<Rightarrow> 'a list" where
  "as_array (Many vs) = vs"
| "as_array (One v) = [v]"

record AllowedValues =
  Value :: "string one_or_many option"

record LiteralData =
  AllowedValues :: "AllowedValues option"
  AllowedValue :: "AllowedValues option"
  AnyValue :: "unit option"

record ComplexDataFormat =
  Schema :: "string option"

record ComplexDataDefault =
  Format :: "ComplexDataFormat option"

record ComplexData =
  ComplexData_Default :: "ComplexDataDefault option"

record BoundingBoxDefault =
  Default_CRS :: "string option"

record BoundingBoxSupported =
  Supported_CRS :: "string list option"

record BoundingBoxData =
  BoundingBoxData_Default :: "BoundingBoxDefault option"
  Supported :: "BoundingBoxSupported option"

record Input =
  Identifier :: "string option"
  Name :: "string option"
  Abstract :: "string option"
  LiteralData :: "LiteralData option"
  ComplexData :: "ComplexData option"
  BoundingBoxData :: "BoundingBoxData option"
  minOccurs :: "int option"

record DataInputs =
  Input :: "Input one_or_many option"

record ProcessDescription =
  DataInputs :: "DataInputs option"
  storeSupported :: "string option"
  statusSupported :: "string option"

subsection \<open>Errors\<close>

text \<open>
  A text of the user interface: a literal, or \<^verbatim>\<open>i18next.t(key, params)\<close> kept as the key and
  its parameters (the translation tables are not part of the adapter).
\<close>

datatype message = Literal string | Translated string "(string \<times> string option) list"

datatype error =
    TerriaError (title: message) (message: message)
  | TypeError
  | RequestFailed string
  | BadCast

subsection \<open>Function parameters\<close>

text \<open>
  The three parameter classes that \<^verbatim>\<open>simpleGeoJsonDataConverter\<close> is instantiated with, and the
  converters of the registry. A converter is the pair of functions \<open>inputToParameter\<close> and
  \<open>parameterToInput\<close> defined below.
\<close>

datatype klass = PointParameterClass | LineParameterClass | PolygonParameterClass

datatype converter =
    LiteralDataConverter
  | DateTimeConverter
  | simpleGeoJsonDataConverter string klass
  | RectangleConverter
  | GeoJsonGeometryConverter

definition PointConverter :: converter where
  "PointConverter = simpleGeoJsonDataConverter ''point'' PointParameterClass"

definition LineConverter :: converter where
  "LineConverter = simpleGeoJsonDataConverter ''linestring'' LineParameterClass"

definition PolygonConverter :: converter where
  "PolygonConverter = simpleGeoJsonDataConverter ''polygon'' PolygonParameterClass"

definition parameterConverters :: "converter list" where
  "parameterConverters =
     [LiteralDataConverter, DateTimeConverter, PointConverter, LineConverter,
      PolygonConverter, RectangleConverter, GeoJsonGeometryConverter]"

text \<open>\<^verbatim>\<open>FunctionParameterOptions\<close>: what a parameter is constructed from.\<close>

record Options =
  opt_id :: string
  opt_name :: "string option"
  opt_description :: "string option"
  opt_isRequired :: "bool option"
  opt_converter :: "converter option"

record 'n CartographicPoint =
  longitude :: 'n
  latitude :: 'n
  height :: 'n

record 'n Rectangle =
  west :: 'n
  south :: 'n
  east :: 'n
  north :: 'n

text \<open>
  The parameter classes, each with its options and its value (\<open>None\<close> while the user has
  not given one). \<^verbatim>\<open>EnumerationParameter\<close> also holds its possible values,
  \<^verbatim>\<open>RectangleParameter\<close> its CRS, \<^verbatim>\<open>GeoJsonParameter\<close> its region parameter and
  \<^verbatim>\<open>RegionParameter\<close> its region provider.
\<close>

datatype 'n FunctionParameter =
    EnumerationParameter Options "string list" "string option"
  | StringParameter Options "string option"
  | DateTimeParameter Options "string option"
  | PointParameter Options "'n CartographicPoint option"
  | LineParameter Options "'n list list option"
  | PolygonParameter Options "'n list list list option"
  | RectangleParameter Options string "'n Rectangle option"
  | GeoJsonParameter Options "'n FunctionParameter" "'n json option"
  | RegionParameter Options "'n FunctionParameter"
  | RegionTypeParameter Options

fun options :: "'n FunctionParameter \<Rightarrow> Options" where
  "options (EnumerationParameter opts _ _) = opts"
| "options (StringParameter opts _) = opts"
| "options (DateTimeParameter opts _) = opts"
| "options (PointParameter opts _) = opts"
| "options (LineParameter opts _) = opts"
| "options (PolygonParameter opts _) = opts"
| "options (RectangleParameter opts _ _) = opts"
| "options (GeoJsonParameter opts _ _) = opts"
| "options (RegionParameter opts _) = opts"
| "options (RegionTypeParameter opts) = opts"

text \<open>
  A value as the user enters it, and a parameter holding it. The value of a parameter has
  the type of its class; a value of another type leaves the parameter as it is.
\<close>

datatype 'n ParameterValue =
    StringValue string
  | PointValue "'n CartographicPoint"
  | LineValue "'n list list"
  | PolygonValue "'n list list list"
  | RectangleValue "'n Rectangle"
  | GeoJsonValue "'n json"

fun with_value :: "'n ParameterValue option \<Rightarrow> 'n FunctionParameter \<Rightarrow> 'n FunctionParameter" where
  "with_value (Some (StringValue s)) (EnumerationParameter opts possibleValues _) =
     EnumerationParameter opts possibleValues (Some s)"
| "with_value (Some (StringValue s)) (StringParameter opts _) = StringParameter opts (Some s)"
| "with_value (Some (StringValue s)) (DateTimeParameter opts _) = DateTimeParameter opts (Some s)"
| "with_value (Some (PointValue v)) (PointParameter opts _) = PointParameter opts (Some v)"
| "with_value (Some (LineValue v)) (LineParameter opts _) = LineParameter opts (Some v)"
| "with_value (Some (PolygonValue v)) (PolygonParameter opts _) = PolygonParameter opts (Some v)"
| "with_value (Some (RectangleValue v)) (RectangleParameter opts crs _) =
     RectangleParameter opts crs (Some v)"
| "with_value (Some (GeoJsonValue v)) (GeoJsonParameter opts regionParameter _) =
     GeoJsonParameter opts regionParameter (Some v)"
| "with_value _ parameter = parameter"

fun with_values ::
  "'n ParameterValue option list \<Rightarrow> 'n FunctionParameter list \<Rightarrow> 'n FunctionParameter list" where
  "with_values (v # vs) (parameter # rest) = with_value v parameter # with_values vs rest"
| "with_values _ rest = rest"

text \<open>The \<^verbatim>\<open>type\<close> property of each parameter class.\<close>

datatype parameter_type =
    EnumerationType | StringType | DateTimeType | PointType | LineType | PolygonType
  | RectangleType | GeoJsonType | RegionType | RegionTypeType

fun type_of :: "'n FunctionParameter \<Rightarrow> parameter_type" where
  "type_of (EnumerationParameter _ _ _) = EnumerationType"
| "type_of (StringParameter _ _) = StringType"
| "type_of (DateTimeParameter _ _) = DateTimeType"
| "type_of (PointParameter _ _) = PointType"
| "type_of (LineParameter _ _) = LineType"
| "type_of (PolygonParameter _ _) = PolygonType"
| "type_of (RectangleParameter _ _ _) = RectangleType"
| "type_of (GeoJsonParameter _ _ _) = GeoJsonType"
| "type_of (RegionParameter _ _) = RegionType"
| "type_of (RegionTypeParameter _) = RegionTypeType"

text \<open>\<^verbatim>\<open>WpsInputData\<close>, with the promise of its value resolved.\<close>

record WpsInputData =
  inputValue :: "string option"
  inputType :: string

text \<open>What \<^verbatim>\<open>convertParameterToInput\<close> returns.\<close>

record WpsInput =
  inputIdentifier :: string
  wps_inputValue :: string
  wps_inputType :: string

subsection \<open>Documents, responses and the workbench\<close>

datatype xml_element =
  Element (localName: string) (attributes: "(string \<times> string) list")
    (children: "xml_element list") (textContent: string)

record XmlDocument =
  documentElement :: "xml_element option"

text \<open>The properties of a parsed ExecuteResponse that the adapter reads.\<close>

record ExceptionJson =
  ExceptionText :: "string option"
  Exception_Exception :: "string option"

record ExceptionReport =
  Exception :: "ExceptionJson option"

record ProcessFailed =
  ExceptionReport :: "ExceptionReport option"

record Status =
  ProcessFailed :: "ProcessFailed option"
  ProcessSucceeded :: "string option"

record WpsJson =
  ProcessDescription :: "ProcessDescription option"
  Status :: "Status option"
  statusLocation :: "string option"

text \<open>The pending item of an execution (\<^verbatim>\<open>CatalogFunctionJob\<close>).\<close>

record CatalogFunctionJob =
  job_uniqueId :: "string option"
  job_name :: "string option"
  job_description :: "string option"

record 'n ParameterTraits =
  trait_name :: string
  trait_value :: string
  trait_geoJsonFeature :: "'n json option"

text \<open>\<^verbatim>\<open>WebProcessingServiceCatalogItem\<close>: its id and the traits that the adapter sets.\<close>

record 'n WebProcessingServiceCatalogItem =
  item_uniqueId :: string
  item_name :: "string option"
  item_description :: "string option"
  item_wpsResponse :: "WpsJson option"
  item_parameters :: "'n ParameterTraits list"

datatype 'n model =
    PendingItem CatalogFunctionJob
  | ResultItem "'n WebProcessingServiceCatalogItem"

text \<open>
  What the adapter does to its collaborators, in the order it does it: requests sent, the
  promise stored on the pending item, the error set on it, map items loaded.
\<close>

datatype 'n effect =
    HttpGet nat string
  | SetLoadPromise CatalogFunctionJob string
  | SetErrorOnPendingItem CatalogFunctionJob "string option"
  | LoadMapItems "'n WebProcessingServiceCatalogItem"

text \<open>
  The state around the catalog function: the clock of the timers in milliseconds (it
  counts the delays of \<^verbatim>\<open>runLater\<close>; the time that a request takes is not modelled),
  \<^verbatim>\<open>terria.supportEmail\<close>, the models on \<^verbatim>\<open>terria.workbench\<close> (top first) and the effects so
  far.
\<close>

record 'n world =
  clock :: nat
  supportEmail :: "string option"
  workbench :: "'n model list"
  effects :: "'n effect list"

text \<open>
  Modelled from the spec: the workbench (\<^verbatim>\<open>Workbench\<close> is not among the sources) as the list of
  the models it shows; the spec's result item is added to it and the pending item removed.
\<close>

definition workbench_contains :: "'n model list \<Rightarrow> 'n model \<Rightarrow> bool" where
  "workbench_contains wb m = (m \<in> set wb)"

definition workbench_add :: "'n model \<Rightarrow> 'n model list \<Rightarrow> 'n model list" where
  "workbench_add m wb = (if m \<in> set wb then wb else m # wb)"

definition workbench_remove :: "'n model \<Rightarrow> 'n model list \<Rightarrow> 'n model list" where
  "workbench_remove m wb = removeAll m wb"

subsection \<open>Collaborators outside the sources\<close>

text \<open>
  The functions that the adapter calls and that are not among its sources are parameters
  of the model: Cesium's \<^verbatim>\<open>CesiumMath.toDegrees\<close>, the text of a number (in a string
  concatenation and in \<^verbatim>\<open>JSON.stringify\<close>), \<^verbatim>\<open>xml2json\<close>, \<^verbatim>\<open>Reproject.crsStringToCode\<close> and
  \<^verbatim>\<open>Reproject.TERRIA_CRS\<close>, \<^verbatim>\<open>new URI(url).query(q).toString()\<close>, \<^verbatim>\<open>proxyCatalogItemUrl\<close>
  (given the URL and the cache duration), \<^verbatim>\<open>loadXML\<close> (the reply to a GET sent at a time to
  a URL, or a failed request), what the user does to the workbench while a timer runs
  (given the time at which it fires), the \<^verbatim>\<open>formatValueForUrl\<close> of the date, line and polygon
  parameter classes, \<^verbatim>\<open>GeoJsonParameter.getProcessedValue\<close>, the \<^verbatim>\<open>name\<close> that the constructor
  of \<^verbatim>\<open>FunctionParameter\<close> gives a parameter, \<^verbatim>\<open>formatValueAsString\<close> and the
  \<^verbatim>\<open>geoJsonFeature\<close> of the classes other than \<^verbatim>\<open>PointParameter\<close>.
\<close>

record 'n ext =
  toDegrees :: "'n \<Rightarrow> 'n"
  numberToString :: "'n \<Rightarrow> string"
  jsonNumber :: "'n \<Rightarrow> string"
  xml2json :: "XmlDocument \<Rightarrow> WpsJson"
  crsStringToCode :: "string \<Rightarrow> string option"
  TERRIA_CRS :: string
  uriWithQuery :: "string \<Rightarrow> (string \<times> string) list \<Rightarrow> string"
  proxyCatalogItemUrl :: "string \<Rightarrow> string \<Rightarrow> string"
  loadXML :: "nat \<Rightarrow> string \<Rightarrow> error + XmlDocument option"
  user :: "nat \<Rightarrow> 'n model list \<Rightarrow> 'n model list"
  DateTimeParameter_formatValueForUrl :: "string \<Rightarrow> string option"
  LineParameter_formatValueForUrl :: "'n list list option \<Rightarrow> error + string option"
  PolygonParameter_formatValueForUrl :: "'n list list list option \<Rightarrow> error + string option"
  getProcessedValue :: "'n json \<Rightarrow> error + WpsInputData option"
  parameterName :: "'n FunctionParameter \<Rightarrow> string"
  formatValueAsString :: "'n FunctionParameter \<Rightarrow> string"
  other_geoJsonFeature :: "'n FunctionParameter \<Rightarrow> 'n json option"

section \<open>PointParameter\<close>

definition PointParameter_getGeoJsonFeature :: "'n ext \<Rightarrow> 'n CartographicPoint \<Rightarrow> 'n json" where
  "PointParameter_getGeoJsonFeature ext v =
     (let coordinates = [toDegrees ext (longitude v), toDegrees ext (latitude v), height v]
      in JObject
          [(''type'', JString ''Feature''),
           (''geometry'',
              JObject [(''type'', JString ''Point''),
                       (''coordinates'', JArray (map JNumber coordinates))]),
           (''properties'', JObject [])])"

definition PointParameter_formatValueForUrl :: "'n ext \<Rightarrow> 'n CartographicPoint \<Rightarrow> string" where
  "PointParameter_formatValueForUrl ext v =
     JSON_stringify (jsonNumber ext)
       (JObject [(''type'', JString ''FeatureCollection''),
                 (''features'', JArray [PointParameter_getGeoJsonFeature ext v])])"

text \<open>The computed property \<^verbatim>\<open>geoJsonFeature\<close> of a point parameter with the given value.\<close>

definition PointParameter_geoJsonFeature ::
  "'n ext \<Rightarrow> 'n CartographicPoint option \<Rightarrow> 'n json option" where
  "PointParameter_geoJsonFeature ext v =
     (case v of Some c \<Rightarrow> Some (PointParameter_getGeoJsonFeature ext c) | None \<Rightarrow> None)"

definition geoJsonFeature :: "'n ext \<Rightarrow> 'n FunctionParameter \<Rightarrow> 'n json option" where
  "geoJsonFeature ext p =
     (case p of
        PointParameter _ v \<Rightarrow> PointParameter_geoJsonFeature ext v
      | _ \<Rightarrow> other_geoJsonFeature ext p)"

section \<open>The parameter converters\<close>

text \<open>
  The schema of an input's complex data: defined when \<^verbatim>\<open>input.ComplexData\<close>, its
  \<^verbatim>\<open>Default\<close>, its \<^verbatim>\<open>Format\<close> and its \<^verbatim>\<open>Schema\<close> all are (the four tests that open the
  \<open>inputToParameter\<close> of the complex data converters).
\<close>

definition ComplexData_Schema :: "Input \<Rightarrow> string option" where
  "ComplexData_Schema input =
     (case ComplexData input of
        None \<Rightarrow> None
      | Some cd \<Rightarrow>
          (case ComplexData_Default cd of
             None \<Rightarrow> None
           | Some d \<Rightarrow> (case Format d of None \<Rightarrow> None | Some f \<Rightarrow> Schema f)))"

definition LiteralDataConverter_inputToParameter :: "Input \<Rightarrow> Options \<Rightarrow> 'n FunctionParameter option" where
  "LiteralDataConverter_inputToParameter input opts =
     (case LiteralData input of
        None \<Rightarrow> None
      | Some ld \<Rightarrow>
          (let allowedValues = (case AllowedValues ld of Some a \<Rightarrow> Some a | None \<Rightarrow> AllowedValue ld)
           in case Option.bind allowedValues Value of
                Some v \<Rightarrow> Some (EnumerationParameter opts (as_array v) None)
              | None \<Rightarrow>
                  if isDefined (AnyValue ld) then Some (StringParameter opts None) else None))"

definition DateTimeConverter_inputToParameter :: "Input \<Rightarrow> Options \<Rightarrow> 'n FunctionParameter option" where
  "DateTimeConverter_inputToParameter input opts =
     (case ComplexData_Schema input of
        None \<Rightarrow> None
      | Some schema \<Rightarrow>
          if schema \<noteq> ''http://www.w3.org/TR/xmlschema-2/#dateTime'' then None
          else Some (DateTimeParameter opts None))"

text \<open>\<^verbatim>\<open>new klass(catalogFunction, options)\<close>\<close>

fun new_klass :: "klass \<Rightarrow> Options \<Rightarrow> 'n FunctionParameter" where
  "new_klass PointParameterClass opts = PointParameter opts None"
| "new_klass LineParameterClass opts = LineParameter opts None"
| "new_klass PolygonParameterClass opts = PolygonParameter opts None"

definition simpleGeoJsonDataConverter_inputToParameter ::
  "string \<Rightarrow> klass \<Rightarrow> Input \<Rightarrow> Options \<Rightarrow> 'n FunctionParameter option" where
  "simpleGeoJsonDataConverter_inputToParameter schemaType klass input opts =
     (case ComplexData_Schema input of
        None \<Rightarrow> None
      | Some schema \<Rightarrow>
          if indexOf schema ''http://geojson.org/geojson-spec.html#'' \<noteq> 0 then None
          else if substring schema (lastIndexOf schema ''#'' + 1) \<noteq> schemaType then None
          else Some (new_klass klass opts))"

definition RectangleConverter_inputToParameter ::
  "'n ext \<Rightarrow> Input \<Rightarrow> Options \<Rightarrow> 'n FunctionParameter option" where
  "RectangleConverter_inputToParameter ext input opts =
     (case BoundingBoxData input of
        None \<Rightarrow> None
      | Some bbox \<Rightarrow>
          (case Option.bind (BoundingBoxData_Default bbox) Default_CRS of
             None \<Rightarrow> None
           | Some defaultCrs \<Rightarrow>
               (let code = crsStringToCode ext defaultCrs;
                    usedCrs = defaultCrs;
                    (code, usedCrs) =
                      (case Option.bind (Supported bbox) Supported_CRS of
                         Some supported \<Rightarrow>
                           if code \<noteq> Some (TERRIA_CRS ext) then
                             (case find (\<lambda>crs. crsStringToCode ext crs = Some (TERRIA_CRS ext)) supported of
                                Some crs \<Rightarrow> (Some (TERRIA_CRS ext), crs)
                              | None \<Rightarrow> (code, usedCrs))
                           else (code, usedCrs)
                       | None \<Rightarrow> (code, usedCrs))
                in if \<not> isDefined code then None
                   else Some (RectangleParameter opts usedCrs None))))"

definition GeoJsonGeometryConverter_inputToParameter ::
  "Input \<Rightarrow> Options \<Rightarrow> 'n FunctionParameter option" where
  "GeoJsonGeometryConverter_inputToParameter input opts =
     (case ComplexData_Schema input of
        None \<Rightarrow> None
      | Some schema \<Rightarrow>
          if indexOf schema ''http://geojson.org/geojson-spec.html#'' \<noteq> 0 then None
          else
            (let regionTypeParameter =
                   RegionTypeParameter
                     \<lparr>opt_id = ''regionType'', opt_name = Some ''Region Type'',
                      opt_description = Some ''The type of region to analyze.'',
                      opt_isRequired = None, opt_converter = None\<rparr>;
                 regionParameter =
                   RegionParameter
                     \<lparr>opt_id = ''regionParameter'', opt_name = Some ''Region Parameter'',
                      opt_description = None, opt_isRequired = None, opt_converter = None\<rparr>
                     regionTypeParameter
             in Some (GeoJsonParameter opts regionParameter None)))"

fun inputToParameter ::
  "'n ext \<Rightarrow> converter \<Rightarrow> Input \<Rightarrow> Options \<Rightarrow> 'n FunctionParameter option" where
  "inputToParameter ext LiteralDataConverter = LiteralDataConverter_inputToParameter"
| "inputToParameter ext DateTimeConverter = DateTimeConverter_inputToParameter"
| "inputToParameter ext (simpleGeoJsonDataConverter schemaType klass) =
     simpleGeoJsonDataConverter_inputToParameter schemaType klass"
| "inputToParameter ext RectangleConverter = RectangleConverter_inputToParameter ext"
| "inputToParameter ext GeoJsonGeometryConverter = GeoJsonGeometryConverter_inputToParameter"

subsection \<open>From a parameter back to a WPS input\<close>

text \<open>
  Each \<open>parameterToInput\<close> receives the parameter that its own \<open>inputToParameter\<close> made
  (\<open>convertParameterToInput\<close> calls the converter stored in the parameter), and the source
  casts it to the class it expects without a check. The model returns \<open>BadCast\<close> for a
  parameter of any other class.
\<close>

definition LiteralDataConverter_parameterToInput ::
  "'n FunctionParameter \<Rightarrow> error + WpsInputData option" where
  "LiteralDataConverter_parameterToInput parameter =
     (case parameter of
        EnumerationParameter _ _ v \<Rightarrow> Inr (Some \<lparr>inputValue = v, inputType = ''LiteralData''\<rparr>)
      | StringParameter _ v \<Rightarrow> Inr (Some \<lparr>inputValue = v, inputType = ''LiteralData''\<rparr>)
      | _ \<Rightarrow> Inl BadCast)"

text \<open>\<^verbatim>\<open>parameter?.value?.toString() || ''\<close>\<close>

definition value_or_empty :: "string option \<Rightarrow> string" where
  "value_or_empty v = (case js_or v (Some []) of Some s \<Rightarrow> s | None \<Rightarrow> [])"

definition DateTimeConverter_parameterToInput ::
  "'n ext \<Rightarrow> 'n FunctionParameter \<Rightarrow> error + WpsInputData option" where
  "DateTimeConverter_parameterToInput ext parameter =
     (case parameter of
        DateTimeParameter _ v \<Rightarrow>
          Inr (Some \<lparr>inputValue = DateTimeParameter_formatValueForUrl ext (value_or_empty v),
                     inputType = ''ComplexData''\<rparr>)
      | _ \<Rightarrow> Inl BadCast)"

text \<open>
  \<^verbatim>\<open>klass.formatValueForUrl(parameter.value)\<close>. For a point without a value,
  \<^verbatim>\<open>PointParameter.getGeoJsonFeature\<close> reads \<^verbatim>\<open>value.longitude\<close> of \<^verbatim>\<open>undefined\<close>: a TypeError.
\<close>

fun klass_formatValueForUrl ::
  "'n ext \<Rightarrow> klass \<Rightarrow> 'n FunctionParameter \<Rightarrow> error + string option" where
  "klass_formatValueForUrl ext PointParameterClass (PointParameter _ (Some v)) =
     Inr (Some (PointParameter_formatValueForUrl ext v))"
| "klass_formatValueForUrl ext PointParameterClass (PointParameter _ None) = Inl TypeError"
| "klass_formatValueForUrl ext LineParameterClass (LineParameter _ v) =
     LineParameter_formatValueForUrl ext v"
| "klass_formatValueForUrl ext PolygonParameterClass (PolygonParameter _ v) =
     PolygonParameter_formatValueForUrl ext v"
| "klass_formatValueForUrl ext _ _ = Inl BadCast"

definition simpleGeoJsonDataConverter_parameterToInput ::
  "'n ext \<Rightarrow> klass \<Rightarrow> 'n FunctionParameter \<Rightarrow> error + WpsInputData option" where
  "simpleGeoJsonDataConverter_parameterToInput ext klass parameter =
     (case klass_formatValueForUrl ext klass parameter of
        Inl e \<Rightarrow> Inl e
      | Inr v \<Rightarrow> Inr (Some \<lparr>inputValue = v, inputType = ''ComplexData''\<rparr>))"

definition RectangleConverter_parameterToInput ::
  "'n ext \<Rightarrow> 'n FunctionParameter \<Rightarrow> error + WpsInputData option" where
  "RectangleConverter_parameterToInput ext functionParameter =
     (case functionParameter of
        RectangleParameter _ crs v \<Rightarrow>
          (case v of
             None \<Rightarrow> Inr None
           | Some val \<Rightarrow>
               (let (bboxMinCoord1, bboxMinCoord2, bboxMaxCoord1, bboxMaxCoord2, urn) =
                      (if indexOf crs ''crs84'' \<noteq> -1 then
                         (toDegrees ext (west val), toDegrees ext (south val),
                          toDegrees ext (east val), toDegrees ext (north val),
                          ''urn:ogc:def:crs:OGC:1.3:CRS84'')
                       else
                         (toDegrees ext (south val), toDegrees ext (west val),
                          toDegrees ext (north val), toDegrees ext (east val),
                          ''urn:ogc:def:crs:EPSG:6.6:4326''))
                in Inr (Some
                     \<lparr>inputValue =
                        Some (numberToString ext bboxMinCoord1 @ '','' @
                              numberToString ext bboxMinCoord2 @ '','' @
                              numberToString ext bboxMaxCoord1 @ '','' @
                              numberToString ext bboxMaxCoord2 @ '','' @ urn),
                      inputType = ''BoundingBoxData''\<rparr>)))
      | _ \<Rightarrow> Inl BadCast)"

definition GeoJsonGeometryConverter_parameterToInput ::
  "'n ext \<Rightarrow> 'n FunctionParameter \<Rightarrow> error + WpsInputData option" where
  "GeoJsonGeometryConverter_parameterToInput ext parameter =
     (case parameter of
        GeoJsonParameter _ _ v \<Rightarrow>
          (case v of
             None \<Rightarrow> Inr None
           | Some val \<Rightarrow> if val = JNull then Inr None else getProcessedValue ext val)
      | _ \<Rightarrow> Inl BadCast)"

fun parameterToInput ::
  "'n ext \<Rightarrow> converter \<Rightarrow> 'n FunctionParameter \<Rightarrow> error + WpsInputData option" where
  "parameterToInput ext LiteralDataConverter = LiteralDataConverter_parameterToInput"
| "parameterToInput ext DateTimeConverter = DateTimeConverter_parameterToInput ext"
| "parameterToInput ext (simpleGeoJsonDataConverter schemaType klass) =
     simpleGeoJsonDataConverter_parameterToInput ext klass"
| "parameterToInput ext RectangleConverter = RectangleConverter_parameterToInput ext"
| "parameterToInput ext GeoJsonGeometryConverter = GeoJsonGeometryConverter_parameterToInput ext"

section \<open>The catalog function\<close>

text \<open>
  The traits of a \<^verbatim>\<open>WebProcessingServiceCatalogFunction\<close> that the adapter reads, the
  process description that \<open>forceLoadMetadata\<close> stores, and the values that the user has
  given to the function parameters: \<open>functionParameters\<close> is computed with \<^verbatim>\<open>keepAlive\<close>, so
  the parameter objects stay and hold what the user enters, the value of the first
  parameter first (\<open>None\<close>, or no entry, for a parameter without a value).
\<close>

record 'n WebProcessingServiceCatalogFunction =
  url :: "string option"
  identifier' :: "string option"
  name :: "string option"
  processDescription :: "ProcessDescription option"
  enteredValues :: "'n ParameterValue option list"

definition proxyCacheDuration :: string where
  "proxyCacheDuration = ''1d''"

definition describeProcessUrl ::
  "'n ext \<Rightarrow> 'n WebProcessingServiceCatalogFunction \<Rightarrow> string option" where
  "describeProcessUrl ext this =
     (case (url this, identifier' this) of
        (Some u, Some ident) \<Rightarrow>
          Some (proxyCatalogItemUrl ext
                 (uriWithQuery ext u
                    [(''service'', ''WPS''), (''request'', ''DescribeProcess''),
                     (''version'', ''1.0.0''), (''Identifier'', ident)])
                 proxyCacheDuration)
      | _ \<Rightarrow> None)"

definition executeUrl ::
  "'n ext \<Rightarrow> 'n WebProcessingServiceCatalogFunction \<Rightarrow> string option" where
  "executeUrl ext this =
     (case url this of
        None \<Rightarrow> None
      | Some u \<Rightarrow>
          Some (proxyCatalogItemUrl ext
                 (uriWithQuery ext u
                    [(''service'', ''WPS''), (''request'', ''Execute''), (''version'', ''1.0.0'')])
                 proxyCacheDuration))"

text \<open>
  \<^verbatim>\<open>getXml\<close>: the request is recorded with the clock at which it is sent, and the reply is
  the one that the server gives to a request sent then.
\<close>

definition getXml ::
  "'n ext \<Rightarrow> string \<Rightarrow> (string \<times> string) list option \<Rightarrow> 'n world
     \<Rightarrow> (error + XmlDocument option) \<times> 'n world" where
  "getXml ext u parameters w =
     (let u' = (case parameters of Some q \<Rightarrow> uriWithQuery ext u q | None \<Rightarrow> u)
      in (loadXML ext (clock w) u', w\<lparr>effects := effects w @ [HttpGet (clock w) u']\<rparr>))"

text \<open>The error that \<^verbatim>\<open>throwInvalidWpsServerError\<close> throws.\<close>

definition throwInvalidWpsServerError ::
  "'n WebProcessingServiceCatalogFunction \<Rightarrow> 'n world \<Rightarrow> string \<Rightarrow> error" where
  \<open>throwInvalidWpsServerError wps w endpoint =
     TerriaError
       (Translated ''models.webProcessingService.invalidWPSServerTitle'' [])
       (Translated ''models.webProcessingService.invalidWPSServerMessage''
          [(''name'', name wps),
           (''email'',
              Some (''<a href="mailto:'' @ js_template (supportEmail w) @ ''">'' @
                    js_template (supportEmail w) @ ''</a>.'')),
           (''endpoint'', Some endpoint)])\<close>

text \<open>
  The test \<^verbatim>\<open>!xml || !xml.documentElement || xml.documentElement.localName !== n\<close>, negated.
\<close>

definition has_root :: "XmlDocument option \<Rightarrow> string \<Rightarrow> bool" where
  "has_root xml n =
     (case xml of
        None \<Rightarrow> False
      | Some doc \<Rightarrow> (case documentElement doc of None \<Rightarrow> False | Some e \<Rightarrow> localName e = n))"

text \<open>
  \<open>forceLoadMetadata\<close>. With a new process description the function parameters are computed
  anew, and the new parameters hold no value.
\<close>

definition forceLoadMetadata ::
  "'n ext \<Rightarrow> 'n WebProcessingServiceCatalogFunction \<Rightarrow> 'n world
     \<Rightarrow> (error + 'n WebProcessingServiceCatalogFunction) \<times> 'n world" where
  "forceLoadMetadata ext this w =
     (case describeProcessUrl ext this of
        None \<Rightarrow> (Inr this, w)
      | Some u \<Rightarrow>
          (let (reply, w') = getXml ext u None w
           in case reply of
                Inl e \<Rightarrow> (Inl e, w')
              | Inr xml \<Rightarrow>
                  (case (if has_root xml ''ProcessDescriptions'' then xml else None) of
                     None \<Rightarrow> (Inl (throwInvalidWpsServerError this w' ''DescribeProcess''), w')
                   | Some doc \<Rightarrow>
                       (let json = xml2json ext doc
                        in if \<not> isDefined (ProcessDescription json) then
                             (Inl (TerriaError
                                    (Translated ''models.webProcessingService.processDescriptionErrorTitle'' [])
                                    (Translated ''models.webProcessingService.processDescriptionErrorMessage'' [])),
                              w')
                           else
                             (Inr (this\<lparr>processDescription := ProcessDescription json,
                                        enteredValues := []\<rparr>),
                              w')))))"

definition storeSupported :: "'n WebProcessingServiceCatalogFunction \<Rightarrow> bool" where
  "storeSupported this =
     (case processDescription this of
        None \<Rightarrow> False
      | Some pd \<Rightarrow> ProcessDescription.storeSupported pd = Some ''true'')"

definition statusSupported :: "'n WebProcessingServiceCatalogFunction \<Rightarrow> bool" where
  "statusSupported this =
     (case processDescription this of
        None \<Rightarrow> False
      | Some pd \<Rightarrow> ProcessDescription.statusSupported pd = Some ''true'')"

definition inputs :: "'n WebProcessingServiceCatalogFunction \<Rightarrow> error + Input list" where
  "inputs this =
     (case processDescription this of
        None \<Rightarrow> Inr []
      | Some pd \<Rightarrow>
          (case Option.bind (DataInputs pd) Input of
             None \<Rightarrow>
               Inl (TerriaError
                     (Translated ''models.webProcessingService.processInputErrorTitle'' [])
                     (Translated ''models.webProcessingService.processInputErrorMessage'' []))
           | Some dataInputs \<Rightarrow> Inr (as_array dataInputs)))"

text \<open>The loop of \<open>convertInputToParameter\<close> over the converters that are left.\<close>

fun first_parameter ::
  "'n ext \<Rightarrow> Input \<Rightarrow> (converter \<Rightarrow> Options) \<Rightarrow> converter list \<Rightarrow> 'n FunctionParameter option" where
  "first_parameter ext input opts [] = None"
| "first_parameter ext input opts (converter # rest) =
     (case inputToParameter ext converter input (opts converter) of
        Some parameter \<Rightarrow> Some parameter
      | None \<Rightarrow> first_parameter ext input opts rest)"

definition convertInputToParameter :: "'n ext \<Rightarrow> Input \<Rightarrow> 'n FunctionParameter option" where
  "convertInputToParameter ext input =
     (case Identifier input of
        None \<Rightarrow> None
      | Some ident \<Rightarrow>
          (let isRequired = (case minOccurs input of Some m \<Rightarrow> m > 0 | None \<Rightarrow> False)
           in first_parameter ext input
                (\<lambda>converter.
                   \<lparr>opt_id = ident, opt_name = Name input, opt_description = Abstract input,
                    opt_isRequired = Some isRequired, opt_converter = Some converter\<rparr>)
                parameterConverters))"

definition unsupportedParameterError :: "Input \<Rightarrow> error" where
  "unsupportedParameterError input =
     TerriaError (Literal ''Unsupported parameter type'')
       (Literal (''The parameter '' @ js_template (Identifier input) @
                 '' is not a supported type of parameter.''))"

text \<open>
  The \<^verbatim>\<open>map\<close> of \<open>functionParameters\<close>: it stops at the first input that throws. The
  parameters that it makes are kept, and \<open>functionParameters\<close> gives them with the values
  that the user has entered since.
\<close>

fun map_inputs :: "'n ext \<Rightarrow> Input list \<Rightarrow> error + 'n FunctionParameter list" where
  "map_inputs ext [] = Inr []"
| "map_inputs ext (input # rest) =
     (case convertInputToParameter ext input of
        None \<Rightarrow> Inl (unsupportedParameterError input)
      | Some parameter \<Rightarrow>
          (case map_inputs ext rest of
             Inl e \<Rightarrow> Inl e
           | Inr parameters \<Rightarrow> Inr (parameter # parameters)))"

definition functionParameters ::
  "'n ext \<Rightarrow> 'n WebProcessingServiceCatalogFunction \<Rightarrow> error + 'n FunctionParameter list" where
  "functionParameters ext this =
     (case inputs this of
        Inl e \<Rightarrow> Inl e
      | Inr is \<Rightarrow>
          (case map_inputs ext is of
             Inl e \<Rightarrow> Inl e
           | Inr parameters \<Rightarrow> Inr (with_values (enteredValues this) parameters)))"

text \<open>\<open>invoke\<close>: after its guard the body is empty.\<close>

definition invoke ::
  "'n ext \<Rightarrow> 'n WebProcessingServiceCatalogFunction \<Rightarrow> 'n world \<Rightarrow> 'n world" where
  "invoke ext this w =
     (if \<not> isDefined (identifier' this) \<or> \<not> isDefined (executeUrl ext this) then w else w)"

definition convertParameterToInput ::
  "'n ext \<Rightarrow> 'n FunctionParameter \<Rightarrow> error + WpsInput option" where
  "convertParameterToInput ext parameter =
     (case opt_converter (options parameter) of
        None \<Rightarrow> Inl TypeError
      | Some converter \<Rightarrow>
          (case parameterToInput ext converter parameter of
             Inl e \<Rightarrow> Inl e
           | Inr None \<Rightarrow> Inr None
           | Inr (Some result) \<Rightarrow>
               (case inputValue result of
                  None \<Rightarrow> Inr None
                | Some v \<Rightarrow>
                    Inr (Some \<lparr>inputIdentifier = opt_id (options parameter),
                               wps_inputValue = v,
                               wps_inputType = inputType result\<rparr>))))"

definition createCatalogItem ::
  "'n ext \<Rightarrow> 'n WebProcessingServiceCatalogFunction \<Rightarrow> CatalogFunctionJob \<Rightarrow> WpsJson
     \<Rightarrow> error + 'n WebProcessingServiceCatalogItem" where
  "createCatalogItem ext this pendingItem response =
     (let ident = ''result-'' @ js_template (job_uniqueId pendingItem)
      in case functionParameters ext this of
           Inl e \<Rightarrow> Inl e
         | Inr ps \<Rightarrow>
             (let parameterTraits =
                    map (\<lambda>p. \<lparr>trait_name = parameterName ext p,
                              trait_value = formatValueAsString ext p,
                              trait_geoJsonFeature = geoJsonFeature ext p\<rparr>) ps
              in Inr \<lparr>item_uniqueId = ident,
                       item_name = job_name pendingItem,
                       item_description = job_description pendingItem,
                       item_wpsResponse = Some response,
                       item_parameters = parameterTraits\<rparr>))"

text \<open>
  \<^verbatim>\<open>runLater(f, ms)\<close>: \<open>f\<close> runs once \<open>ms\<close> milliseconds have passed; by then the user may
  have changed the workbench.
\<close>

definition runLater :: "'n ext \<Rightarrow> nat \<Rightarrow> 'n world \<Rightarrow> 'n world" where
  "runLater ext ms w =
     w\<lparr>clock := clock w + ms, workbench := user ext (clock w + ms) (workbench w)\<rparr>"

text \<open>The message that \<open>handleExecuteResponse\<close> passes to \<^verbatim>\<open>setErrorOnPendingItem\<close>.\<close>

definition failure_text :: "ProcessFailed \<Rightarrow> string option" where
  "failure_text failed =
     (let e = Option.bind (ExceptionReport failed) Exception
      in js_or (Option.bind e ExceptionText) (Option.bind e Exception_Exception))"

definition invalidResponseError ::
  "'n WebProcessingServiceCatalogFunction \<Rightarrow> 'n world \<Rightarrow> error" where
  \<open>invalidResponseError this w =
     TerriaError
       (Translated ''models.webProcessingService.invalidResponseErrorTitle'' [])
       (Translated ''models.webProcessingService.invalidResponseErrorMessage''
          [(''name'', name this),
           (''email'',
              Some (''<a href="mailto:'' @ js_template (supportEmail w) @ ''">'' @
                    js_template (supportEmail w) @ ''</a>.''))])\<close>

text \<open>
  \<open>handleExecuteResponse\<close> returns the outcome (an error thrown, or nothing) and the state
  it leaves. A server that never reports the end of the process keeps it polling for ever:
  the function is partial, and \<open>None\<close> is a run that does not end.
\<close>

partial_function (option) handleExecuteResponse ::
  "'n ext \<Rightarrow> 'n WebProcessingServiceCatalogFunction \<Rightarrow> XmlDocument option \<Rightarrow> CatalogFunctionJob
     \<Rightarrow> 'n world \<Rightarrow> ((error + unit) \<times> 'n world) option" where
  "handleExecuteResponse ext this xml pendingItem w =
     (case (if has_root xml ''ExecuteResponse'' then xml else None) of
        None \<Rightarrow> Some (Inl (throwInvalidWpsServerError this w ''ExecuteResponse''), w)
      | Some doc \<Rightarrow>
          (let json = xml2json ext doc
           in case Status json of
                None \<Rightarrow> Some (Inl (invalidResponseError this w), w)
              | Some status \<Rightarrow>
                  (case ProcessFailed status of
                     Some failed \<Rightarrow>
                       Some (Inr (),
                             w\<lparr>effects := effects w @
                                 [SetErrorOnPendingItem pendingItem (failure_text failed)]\<rparr>)
                   | None \<Rightarrow>
                       if isDefined (ProcessSucceeded status) then
                         (case createCatalogItem ext this pendingItem json of
                            Inl e \<Rightarrow> Some (Inl e, w)
                          | Inr item \<Rightarrow>
                              Some (Inr (),
                                    w\<lparr>effects := effects w @ [LoadMapItems item],
                                      workbench :=
                                        workbench_remove (PendingItem pendingItem)
                                          (workbench_add (ResultItem item) (workbench w))\<rparr>))
                       else
                         (case statusLocation json of
                            Some location \<Rightarrow>
                              if workbench_contains (workbench w) (PendingItem pendingItem) then
                                (let (promise, w') = getXml ext location None (runLater ext 500 w);
                                     w'' = w'\<lparr>effects := effects w' @ [SetLoadPromise pendingItem location]\<rparr>
                                 in case promise of
                                      Inl e \<Rightarrow> Some (Inl e, w'')
                                    | Inr xml' \<Rightarrow> handleExecuteResponse ext this xml' pendingItem w'')
                              else Some (Inr (), w)
                          | None \<Rightarrow> Some (Inr (), w)))))"

subsection \<open>The polls of a run\<close>

text \<open>
  The state in which the branch of \<open>handleExecuteResponse\<close> that polls calls itself again:
  \<open>next_poll\<close> is defined when the handler, given the document \<open>xml\<close> in the state \<open>w\<close>,
  takes that branch and the request is answered, and is then the reply with the state at
  its arrival. \<open>poll_n\<close> follows \<open>n\<close> polls.
\<close>

definition next_poll ::
  "'n ext \<Rightarrow> CatalogFunctionJob \<Rightarrow> XmlDocument option \<times> 'n world
     \<Rightarrow> (XmlDocument option \<times> 'n world) option" where
  "next_poll ext pendingItem s =
     (case s of
        (xml, w) \<Rightarrow>
          (case (if has_root xml ''ExecuteResponse'' then xml else None) of
             None \<Rightarrow> None
           | Some doc \<Rightarrow>
               (case Status (xml2json ext doc) of
                  None \<Rightarrow> None
                | Some status \<Rightarrow>
                    if isDefined (ProcessFailed status) \<or> isDefined (ProcessSucceeded status) then None
                    else
                      (case statusLocation (xml2json ext doc) of
                         None \<Rightarrow> None
                       | Some location \<Rightarrow>
                           if workbench_contains (workbench w) (PendingItem pendingItem) then
                             (case getXml ext location None (runLater ext 500 w) of
                                (Inl e, w') \<Rightarrow> None
                              | (Inr xml', w') \<Rightarrow>
                                  Some (xml', w'\<lparr>effects := effects w' @ [SetLoadPromise pendingItem location]\<rparr>))
                           else None))))"

fun poll_n ::
  "'n ext \<Rightarrow> CatalogFunctionJob \<Rightarrow> nat \<Rightarrow> XmlDocument option \<times> 'n world
     \<Rightarrow> (XmlDocument option \<times> 'n world) option" where
  "poll_n ext pendingItem 0 s = Some s"
| "poll_n ext pendingItem (Suc n) s =
     (case next_poll ext pendingItem s of
        None \<Rightarrow> None
      | Some s' \<Rightarrow> poll_n ext pendingItem n s')"

text \<open>The requests among the effects: the time and the URL of each.\<close>

fun http_gets :: "'n effect list \<Rightarrow> (nat \<times> string) list" where
  "http_gets [] = []"
| "http_gets (HttpGet t u # es) = (t, u) # http_gets es"
| "http_gets (_ # es) = http_gets es"

section \<open>A sample runtime, server and user\<close>

text \<open>
  Concrete collaborators on which the theorems below are instantiated: numbers are whole
  (\<open>toDegrees\<close> multiplies by 57, the whole part of \<open>180 / \<pi>\<close>) and print in decimal; a
  document is read by the names of the root's children and attributes.
\<close>

fun nat_text :: "nat \<Rightarrow> string" where
  "nat_text n =
     (if n < 10 then [''0123456789'' ! n]
      else nat_text (n div 10) @ [''0123456789'' ! (n mod 10)])"

definition int_text :: "int \<Rightarrow> string" where
  "int_text i = (if i < 0 then ''-'' @ nat_text (nat (- i)) else nat_text (nat i))"

definition child_named :: "string \<Rightarrow> xml_element \<Rightarrow> xml_element option" where
  "child_named n e = find (\<lambda>c. localName c = n) (children e)"

definition sample_xml2json :: "XmlDocument \<Rightarrow> WpsJson" where
  "sample_xml2json doc =
     (case documentElement doc of
        None \<Rightarrow> \<lparr>ProcessDescription = None, Status = None, statusLocation = None\<rparr>
      | Some root \<Rightarrow>
          \<lparr>ProcessDescription =
             map_option
               (\<lambda>pd. \<lparr>DataInputs = None,
                       storeSupported = map_of (attributes pd) ''storeSupported'',
                       statusSupported = map_of (attributes pd) ''statusSupported''\<rparr>)
               (child_named ''ProcessDescription'' root),
           Status =
             map_option
               (\<lambda>st. \<lparr>ProcessFailed =
                         map_option
                           (\<lambda>pf. \<lparr>ExceptionReport =
                                     Some \<lparr>Exception =
                                       Some \<lparr>ExceptionText = Some (textContent pf),
                                             Exception_Exception = None\<rparr>\<rparr>\<rparr>)
                           (child_named ''ProcessFailed'' st),
                       ProcessSucceeded = map_option textContent (child_named ''ProcessSucceeded'' st)\<rparr>)
               (child_named ''Status'' root),
           statusLocation = map_of (attributes root) ''statusLocation''\<rparr>)"

text \<open>The documents of the sample server: a process accepted and a process succeeded.\<close>

definition execute_response :: "xml_element list \<Rightarrow> XmlDocument" where
  "execute_response status =
     \<lparr>documentElement =
        Some (Element ''ExecuteResponse'' [(''statusLocation'', ''http://wps.example/status/7'')]
                [Element ''Status'' [] status []] [])\<rparr>"

definition accepted_doc :: XmlDocument where
  "accepted_doc = execute_response [Element ''ProcessAccepted'' [] [] ''queued'']"

definition succeeded_doc :: XmlDocument where
  "succeeded_doc = execute_response [Element ''ProcessSucceeded'' [] [] ''done'']"

definition not_found_page :: XmlDocument where
  "not_found_page = \<lparr>documentElement = Some (Element ''html'' [] [] ''Not Found'')\<rparr>"

text \<open>
  The sample server answers the status location with \<open>accepted_doc\<close> before the time 1000
  and with \<open>succeeded_doc\<close> from then on, and any other address but one with an HTML page;
  the sample user leaves the workbench alone.
\<close>

text \<open>
  The sample name of a parameter is \<^verbatim>\<open>options.name || options.id\<close>; the sample text of its
  value is the value of a literal parameter, the longitude and latitude of a point, and
  empty otherwise.
\<close>

definition sample_parameterName :: "int FunctionParameter \<Rightarrow> string" where
  "sample_parameterName p =
     (case js_or (opt_name (options p)) (Some (opt_id (options p))) of
        Some n \<Rightarrow> n
      | None \<Rightarrow> [])"

definition sample_formatValueAsString :: "int FunctionParameter \<Rightarrow> string" where
  "sample_formatValueAsString p =
     (case p of
        PointParameter _ (Some c) \<Rightarrow> int_text (longitude c) @ '','' @ int_text (latitude c)
      | EnumerationParameter _ _ (Some v) \<Rightarrow> v
      | StringParameter _ (Some v) \<Rightarrow> v
      | _ \<Rightarrow> [])"

definition sample_ext :: "int ext" where
  "sample_ext =
     \<lparr>toDegrees = (\<lambda>r. 57 * r),
      numberToString = int_text,
      jsonNumber = int_text,
      xml2json = sample_xml2json,
      crsStringToCode = (\<lambda>crs. if crs = ''EPSG:4326'' \<or> crs = ''urn:ogc:def:crs:EPSG:6.6:4326''
                                then Some ''EPSG:4326'' else None),
      TERRIA_CRS = ''EPSG:4326'',
      uriWithQuery = (\<lambda>u q. u @ ''?'' @ concat (map (\<lambda>kv. fst kv @ ''='' @ snd kv @ ''&'') q)),
      proxyCatalogItemUrl = (\<lambda>u duration. u),
      loadXML = (\<lambda>t u. if u = ''http://wps.example/status/7''
                       then Inr (Some (if t < 1000 then accepted_doc else succeeded_doc))
                       else if u = ''http://wps.example/down'' then Inl (RequestFailed u)
                       else Inr (Some not_found_page)),
      user = (\<lambda>t wb. wb),
      DateTimeParameter_formatValueForUrl = (\<lambda>v. Some v),
      LineParameter_formatValueForUrl = (\<lambda>v. Inr (map_option (\<lambda>l. ''line'') v)),
      PolygonParameter_formatValueForUrl = (\<lambda>v. Inr (map_option (\<lambda>l. ''polygon'') v)),
      getProcessedValue = (\<lambda>v. Inr (Some \<lparr>inputValue = Some ''geojson'', inputType = ''ComplexData''\<rparr>)),
      parameterName = sample_parameterName,
      formatValueAsString = sample_formatValueAsString,
      other_geoJsonFeature = (\<lambda>p. None)\<rparr>"

text \<open>Sample inputs of a process description, a catalog function, a pending item and a state.\<close>

definition complex_input :: "string \<Rightarrow> string option \<Rightarrow> Input" where
  "complex_input ident schema =
     \<lparr>Identifier = Some ident, Name = None, Abstract = None, LiteralData = None,
      ComplexData = Some \<lparr>ComplexData_Default = Some \<lparr>Format = Some \<lparr>Schema = schema\<rparr>\<rparr>\<rparr>,
      BoundingBoxData = None, minOccurs = Some 1\<rparr>"

definition literal_input :: "string \<Rightarrow> LiteralData \<Rightarrow> Input" where
  "literal_input ident ld =
     \<lparr>Identifier = Some ident, Name = None, Abstract = None, LiteralData = Some ld,
      ComplexData = None, BoundingBoxData = None, minOccurs = None\<rparr>"

definition geometry_input :: Input where
  "geometry_input = complex_input ''geometry'' (Some ''http://geojson.org/geojson-spec.html#point'')"

definition extent_input :: Input where
  "extent_input =
     \<lparr>Identifier = Some ''extent'', Name = Some ''Extent'', Abstract = None, LiteralData = None,
      ComplexData = None,
      BoundingBoxData =
        Some \<lparr>BoundingBoxData_Default = Some \<lparr>Default_CRS = Some ''EPSG:4326''\<rparr>, Supported = None\<rparr>,
      minOccurs = Some 0\<rparr>"

definition units_input :: Input where
  "units_input =
     literal_input ''units''
       \<lparr>AllowedValues = Some \<lparr>Value = Some (Many [''m'', ''km''])\<rparr>, AllowedValue = None,
        AnyValue = None\<rparr>"

definition label_input :: Input where
  "label_input =
     literal_input ''label'' \<lparr>AllowedValues = None, AllowedValue = None, AnyValue = Some ()\<rparr>"

text \<open>A bounding box in a CRS that the sample \<open>crsStringToCode\<close> does not know.\<close>

definition footprint_input :: Input where
  "footprint_input =
     \<lparr>Identifier = Some ''footprint'', Name = None, Abstract = None, LiteralData = None,
      ComplexData = None,
      BoundingBoxData =
        Some \<lparr>BoundingBoxData_Default = Some \<lparr>Default_CRS = Some ''EPSG:3857''\<rparr>, Supported = None\<rparr>,
      minOccurs = Some 1\<rparr>"

definition raster_input :: Input where
  "raster_input = complex_input ''raster'' None"

definition table_input :: Input where
  "table_input = complex_input ''table'' (Some ''http://www.w3.org/TR/xmlschema-2/#string'')"

definition sample_function :: "Input list \<Rightarrow> int WebProcessingServiceCatalogFunction" where
  "sample_function is =
     \<lparr>url = Some ''http://wps.example/wps'', identifier' = Some ''buffer'', name = Some ''Buffer'',
      processDescription =
        Some \<lparr>DataInputs = Some \<lparr>Input = Some (Many is)\<rparr>,
              storeSupported = Some ''true'', statusSupported = Some ''true''\<rparr>,
      enteredValues = []\<rparr>"

definition sample_job :: CatalogFunctionJob where
  "sample_job =
     \<lparr>job_uniqueId = Some ''job-1'', job_name = Some ''Buffer job'',
      job_description = Some ''Buffer of a point''\<rparr>"

definition sample_world :: "int world" where
  "sample_world =
     \<lparr>clock = 0, supportEmail = Some ''help@wps.example'',
      workbench = [PendingItem sample_job], effects = []\<rparr>"

definition sample_options :: Options where
  "sample_options =
     \<lparr>opt_id = ''extent'', opt_name = Some ''Extent'', opt_description = None,
      opt_isRequired = Some False, opt_converter = Some RectangleConverter\<rparr>"

text \<open>A user who takes the pending item off the workbench within the first half second.\<close>

definition impatient_ext :: "int ext" where
  "impatient_ext = sample_ext\<lparr>user := (\<lambda>t wb. workbench_remove (PendingItem sample_job) wb)\<rparr>"

section \<open>Verified properties\<close>

subsection \<open>PointParameter\<close>

text \<open>
  C8. For every cartographic point, \<open>PointParameter.formatValueForUrl\<close> returns the JSON text
  of a GeoJSON FeatureCollection with exactly one feature, a Point whose coordinates are
  the longitude and the latitude of the value, each converted to degrees, followed by its
  height as it is; and the \<open>geoJsonFeature\<close> of a point parameter is that feature when its
  value is defined and undefined otherwise.
\<close>

theorem PointParameter_serialization:
  \<open>(let feature = JObject
          [(''type'', JString ''Feature''),
           (''geometry'',
              JObject [(''type'', JString ''Point''),
                       (''coordinates'',
                          JArray [JNumber (toDegrees ext (longitude v)),
                                  JNumber (toDegrees ext (latitude v)),
                                  JNumber (height v)])]),
           (''properties'', JObject [])]
    in PointParameter_formatValueForUrl ext v =
         JSON_stringify (jsonNumber ext)
           (JObject [(''type'', JString ''FeatureCollection''), (''features'', JArray [feature])])
     \<and> PointParameter_formatValueForUrl ext v =
         ''{"type":"FeatureCollection","features":[{"type":"Feature","geometry":{"type":"Point","coordinates":[''
           @ jsonNumber ext (toDegrees ext (longitude v)) @ '',''
           @ jsonNumber ext (toDegrees ext (latitude v)) @ '',''
           @ jsonNumber ext (height v) @ '']},"properties":{}}]}''
     \<and> PointParameter_geoJsonFeature ext (Some v) = Some feature
     \<and> PointParameter_geoJsonFeature ext None = None)\<close>
  by (simp add: Let_def PointParameter_formatValueForUrl_def PointParameter_getGeoJsonFeature_def
        PointParameter_geoJsonFeature_def quoteJSONString_def escapeJSONChar_def)

theorem PointParameter_serialization_witness:
  \<open>PointParameter_formatValueForUrl sample_ext \<lparr>longitude = 2, latitude = - 1, height = 10\<rparr> =
     ''{"type":"FeatureCollection","features":[{"type":"Feature","geometry":{"type":"Point","coordinates":[114,-57,10]},"properties":{}}]}''
   \<and> PointParameter_geoJsonFeature sample_ext (Some \<lparr>longitude = 2, latitude = - 1, height = 10\<rparr>) =
       Some (JObject
          [(''type'', JString ''Feature''),
           (''geometry'',
              JObject [(''type'', JString ''Point''),
                       (''coordinates'', JArray [JNumber 114, JNumber (- 57), JNumber 10])]),
           (''properties'', JObject [])])\<close>
  using PointParameter_serialization [of sample_ext "\<lparr>longitude = 2, latitude = - 1, height = 10\<rparr>"]
  by (simp add: Let_def sample_ext_def int_text_def quoteJSONString_def escapeJSONChar_def)

subsection \<open>Handling the Execute response\<close>

lemma has_root_iff:
  "has_root xml n \<longleftrightarrow> (\<exists>doc e. xml = Some doc \<and> documentElement doc = Some e \<and> localName e = n)"
  by (auto simp: has_root_def split: option.splits)

lemma handleExecuteResponse_invalid:
  "\<not> has_root xml ''ExecuteResponse'' \<Longrightarrow>
   handleExecuteResponse ext this xml p w =
     Some (Inl (throwInvalidWpsServerError this w ''ExecuteResponse''), w)"
  by (subst handleExecuteResponse.simps) simp

lemma handle_next_poll:
  "next_poll ext p (xml, w) = Some (xml', w') \<Longrightarrow>
   handleExecuteResponse ext this xml p w = handleExecuteResponse ext this xml' p w'"
  by (subst handleExecuteResponse.simps)
     (auto simp: next_poll_def isDefined_def Let_def split: option.splits if_splits prod.splits sum.splits)

lemma handle_poll_n:
  "poll_n ext p n (xml, w) = Some (xml', w') \<Longrightarrow>
   handleExecuteResponse ext this xml p w = handleExecuteResponse ext this xml' p w'"
proof (induction n arbitrary: xml w)
  case 0
  then show ?case by simp
next
  case (Suc n)
  then obtain s where s: "next_poll ext p (xml, w) = Some s" and r: "poll_n ext p n s = Some (xml', w')"
    by (auto split: option.splits)
  obtain xml1 w1 where s1: "s = (xml1, w1)" by (cases s)
  from handle_next_poll [OF s [unfolded s1]] Suc.IH [OF r [unfolded s1]]
  show ?case by simp
qed

lemma http_gets_append: "http_gets (es @ fs) = http_gets es @ http_gets fs"
  by (induction es rule: http_gets.induct) auto

lemma next_poll_step:
  "next_poll ext p (xml, w) = Some (xml', w') \<Longrightarrow>
   length (http_gets (effects w')) = Suc (length (http_gets (effects w)))"
  by (auto simp: next_poll_def getXml_def runLater_def Let_def http_gets_append
           split: option.splits if_splits prod.splits sum.splits)

lemma poll_n_steps:
  "poll_n ext p n (xml, w) = Some (xml', w') \<Longrightarrow>
   length (http_gets (effects w')) = length (http_gets (effects w)) + n"
proof (induction n arbitrary: xml w)
  case 0
  then show ?case by simp
next
  case (Suc n)
  then obtain s where s: "next_poll ext p (xml, w) = Some s" and r: "poll_n ext p n s = Some (xml', w')"
    by (auto split: option.splits)
  obtain xml1 w1 where s1: "s = (xml1, w1)" by (cases s)
  from next_poll_step [OF s [unfolded s1]] Suc.IH [OF r [unfolded s1]]
  show ?case by simp
qed

lemma handle_terminal:
  assumes "has_root (Some doc) ''ExecuteResponse''" "Status (xml2json ext doc) = Some st"
    "ProcessFailed st \<noteq> None \<or> ProcessSucceeded st \<noteq> None"
  shows "\<exists>outcome w'. handleExecuteResponse ext this (Some doc) p w = Some (outcome, w') \<and>
           http_gets (effects w') = http_gets (effects w)"
  using assms
  by (subst handleExecuteResponse.simps)
     (auto simp: isDefined_def Let_def http_gets_append split: option.splits sum.splits)

lemma handle_poll_branch:
  assumes "has_root (Some doc) ''ExecuteResponse''" "Status (xml2json ext doc) = Some st"
    "ProcessFailed st = None" "ProcessSucceeded st = None"
    "statusLocation (xml2json ext doc) = Some loc"
    "PendingItem p \<in> set (workbench w)"
    "loadXML ext (clock w + 500) loc = Inr reply"
  shows "handleExecuteResponse ext this (Some doc) p w =
         handleExecuteResponse ext this reply p
           (w\<lparr>clock := clock w + 500,
              workbench := user ext (clock w + 500) (workbench w),
              effects := effects w @ [HttpGet (clock w + 500) loc, SetLoadPromise p loc]\<rparr>)"
  using assms
  by (subst handleExecuteResponse.simps)
     (simp add: isDefined_def Let_def getXml_def runLater_def workbench_contains_def)

lemma handle_no_poll:
  assumes "has_root (Some doc) ''ExecuteResponse''" "Status (xml2json ext doc) = Some st"
    "ProcessFailed st = None" "ProcessSucceeded st = None"
    "PendingItem p \<notin> set (workbench w)"
  shows "handleExecuteResponse ext this (Some doc) p w = Some (Inr (), w)"
  using assms
  by (subst handleExecuteResponse.simps)
     (simp add: isDefined_def Let_def workbench_contains_def split: option.splits)


lemma sample_status:
  "has_root (Some accepted_doc) ''ExecuteResponse''"
  "has_root (Some succeeded_doc) ''ExecuteResponse''"
  "sample_xml2json accepted_doc =
     \<lparr>ProcessDescription = None,
      Status = Some \<lparr>ProcessFailed = None, ProcessSucceeded = None\<rparr>,
      statusLocation = Some ''http://wps.example/status/7''\<rparr>"
  "sample_xml2json succeeded_doc =
     \<lparr>ProcessDescription = None,
      Status = Some \<lparr>ProcessFailed = None, ProcessSucceeded = Some ''done''\<rparr>,
      statusLocation = Some ''http://wps.example/status/7''\<rparr>"
  by (simp_all add: has_root_def accepted_doc_def succeeded_doc_def execute_response_def
        sample_xml2json_def child_named_def)

lemma sample_ext_sel:
  "xml2json sample_ext = sample_xml2json"
  "user sample_ext = (\<lambda>t wb. wb)"
  "loadXML sample_ext t ''http://wps.example/status/7'' =
     Inr (Some (if t < 1000 then accepted_doc else succeeded_doc))"
  by (simp_all add: sample_ext_def)

text \<open>
  C9. Polling never outlives the pending item: when a status document that reports neither
  success nor failure arrives (as the first response or after \<open>n\<close> polls) and the workbench
  no longer contains the pending item, \<open>handleExecuteResponse\<close> returns at once, in the state
  in which the document arrived: no further GET is scheduled and the run ends.
\<close>

theorem polling_stops_without_pending_item:
  assumes "poll_n ext pendingItem n (xml_init, w_init) = Some (Some doc, w)"
    and "has_root (Some doc) ''ExecuteResponse''"
    and "Status (xml2json ext doc) = Some st"
    and "ProcessFailed st = None" and "ProcessSucceeded st = None"
    and "PendingItem pendingItem \<notin> set (workbench w)"
  shows "handleExecuteResponse ext this (Some doc) pendingItem w = Some (Inr (), w)
       \<and> handleExecuteResponse ext this xml_init pendingItem w_init = Some (Inr (), w)
       \<and> next_poll ext pendingItem (Some doc, w) = None"
proof -
  have a: "handleExecuteResponse ext this (Some doc) pendingItem w = Some (Inr (), w)"
    using assms(2-6) by (rule handle_no_poll)
  have b: "next_poll ext pendingItem (Some doc, w) = None"
    using assms(2-6) by (simp add: next_poll_def workbench_contains_def isDefined_def split: option.splits)
  from a b handle_poll_n [OF assms(1)] show ?thesis by simp
qed

lemma impatient_poll:
  "poll_n impatient_ext sample_job 1 (Some accepted_doc, sample_world) =
     Some (Some accepted_doc,
           \<lparr>clock = 500, supportEmail = Some ''help@wps.example'', workbench = [],
            effects = [HttpGet 500 ''http://wps.example/status/7'',
                       SetLoadPromise sample_job ''http://wps.example/status/7'']\<rparr>)"
  by (simp add: next_poll_def sample_status impatient_ext_def sample_ext_sel sample_ext_def sample_world_def
        isDefined_def workbench_contains_def workbench_remove_def getXml_def runLater_def)


theorem polling_stops_without_pending_item_witness:
  "handleExecuteResponse impatient_ext (sample_function []) (Some accepted_doc) sample_job sample_world =
     Some (Inr (),
           \<lparr>clock = 500, supportEmail = Some ''help@wps.example'', workbench = [],
            effects = [HttpGet 500 ''http://wps.example/status/7'',
                       SetLoadPromise sample_job ''http://wps.example/status/7'']\<rparr>)"
proof -
  have x: "xml2json impatient_ext = sample_xml2json"
    by (simp add: impatient_ext_def sample_ext_def)
  show ?thesis
    using polling_stops_without_pending_item
      [of impatient_ext sample_job 1 "Some accepted_doc" sample_world accepted_doc _
          "\<lparr>ProcessFailed = None, ProcessSucceeded = None\<rparr>" "sample_function []",
       OF impatient_poll]
    by (simp add: sample_status x)
qed

text \<open>
  C1, as amended. Given an ExecuteResponse whose Status contains neither ProcessFailed nor
  ProcessSucceeded and that carries a statusLocation, \<open>handleExecuteResponse\<close>, provided the
  workbench contains the pending item, sends a GET to that status location after a delay of
  500 milliseconds and handles the reply as it handles the first response. This repeats
  until a document whose Status contains ProcessSucceeded or ProcessFailed is received:
  when that document is the reply to the \<open>n\<close>-th poll, the function returns, having sent
  those \<open>n\<close> requests and none after.
\<close>

theorem polling_repeats_until_terminal:
  "(has_root (Some doc) ''ExecuteResponse'' \<and> Status (xml2json ext doc) = Some st \<and>
    ProcessFailed st = None \<and> ProcessSucceeded st = None \<and>
    statusLocation (xml2json ext doc) = Some loc \<and>
    PendingItem pendingItem \<in> set (workbench w) \<and>
    loadXML ext (clock w + 500) loc = Inr reply \<longrightarrow>
      handleExecuteResponse ext this (Some doc) pendingItem w =
      handleExecuteResponse ext this reply pendingItem
        (w\<lparr>clock := clock w + 500,
           workbench := user ext (clock w + 500) (workbench w),
           effects := effects w @ [HttpGet (clock w + 500) loc, SetLoadPromise pendingItem loc]\<rparr>))
 \<and> (poll_n ext pendingItem n (xml_init, w_init) = Some (Some doc', w') \<and>
    has_root (Some doc') ''ExecuteResponse'' \<and> Status (xml2json ext doc') = Some st' \<and>
    (ProcessFailed st' \<noteq> None \<or> ProcessSucceeded st' \<noteq> None) \<longrightarrow>
      (\<exists>outcome w''.
         handleExecuteResponse ext this xml_init pendingItem w_init = Some (outcome, w'') \<and>
         handleExecuteResponse ext this (Some doc') pendingItem w' = Some (outcome, w'') \<and>
         http_gets (effects w'') = http_gets (effects w') \<and>
         length (http_gets (effects w')) = length (http_gets (effects w_init)) + n))"
proof (intro conjI impI)
  assume "has_root (Some doc) ''ExecuteResponse'' \<and> Status (xml2json ext doc) = Some st \<and>
    ProcessFailed st = None \<and> ProcessSucceeded st = None \<and>
    statusLocation (xml2json ext doc) = Some loc \<and>
    PendingItem pendingItem \<in> set (workbench w) \<and>
    loadXML ext (clock w + 500) loc = Inr reply"
  then show "handleExecuteResponse ext this (Some doc) pendingItem w =
      handleExecuteResponse ext this reply pendingItem
        (w\<lparr>clock := clock w + 500,
           workbench := user ext (clock w + 500) (workbench w),
           effects := effects w @ [HttpGet (clock w + 500) loc, SetLoadPromise pendingItem loc]\<rparr>)"
    using handle_poll_branch [of doc ext st loc pendingItem w reply this] by simp
next
  assume a: "poll_n ext pendingItem n (xml_init, w_init) = Some (Some doc', w') \<and>
    has_root (Some doc') ''ExecuteResponse'' \<and> Status (xml2json ext doc') = Some st' \<and>
    (ProcessFailed st' \<noteq> None \<or> ProcessSucceeded st' \<noteq> None)"
  then have p: "poll_n ext pendingItem n (xml_init, w_init) = Some (Some doc', w')" by simp
  from a obtain outcome w'' where
    t: "handleExecuteResponse ext this (Some doc') pendingItem w' = Some (outcome, w'')"
      "http_gets (effects w'') = http_gets (effects w')"
    using handle_terminal [of doc' ext st' this pendingItem w'] by blast
  from t handle_poll_n [OF p, of this] poll_n_steps [OF p]
  show "\<exists>outcome w''.
         handleExecuteResponse ext this xml_init pendingItem w_init = Some (outcome, w'') \<and>
         handleExecuteResponse ext this (Some doc') pendingItem w' = Some (outcome, w'') \<and>
         http_gets (effects w'') = http_gets (effects w') \<and>
         length (http_gets (effects w')) = length (http_gets (effects w_init)) + n"
    by simp
qed

lemma sample_poll_twice:
  "poll_n sample_ext sample_job 2 (Some accepted_doc, sample_world) =
     Some (Some succeeded_doc,
           \<lparr>clock = 1000, supportEmail = Some ''help@wps.example'',
            workbench = [PendingItem sample_job],
            effects = [HttpGet 500 ''http://wps.example/status/7'',
                       SetLoadPromise sample_job ''http://wps.example/status/7'',
                       HttpGet 1000 ''http://wps.example/status/7'',
                       SetLoadPromise sample_job ''http://wps.example/status/7'']\<rparr>)"
  by (simp add: numeral_2_eq_2 next_poll_def sample_status sample_ext_sel sample_world_def
        isDefined_def workbench_contains_def getXml_def runLater_def Let_def)

theorem polling_repeats_until_terminal_witness:
  "\<exists>outcome w''.
     handleExecuteResponse sample_ext (sample_function []) (Some accepted_doc) sample_job sample_world =
       Some (outcome, w'') \<and>
     map snd (http_gets (effects w'')) =
       [''http://wps.example/status/7'', ''http://wps.example/status/7'']"
proof -
  let ?st = "\<lparr>ProcessFailed = None, ProcessSucceeded = Some ''done''\<rparr>"
  let ?w = "\<lparr>clock = 1000, supportEmail = Some ''help@wps.example'',
            workbench = [PendingItem sample_job],
            effects = [HttpGet 500 ''http://wps.example/status/7'',
                       SetLoadPromise sample_job ''http://wps.example/status/7'',
                       HttpGet 1000 ''http://wps.example/status/7'',
                       SetLoadPromise sample_job ''http://wps.example/status/7'']\<rparr> :: int world"
  have h: "poll_n sample_ext sample_job 2 (Some accepted_doc, sample_world) = Some (Some succeeded_doc, ?w) \<and>
    has_root (Some succeeded_doc) ''ExecuteResponse'' \<and>
    Status (xml2json sample_ext succeeded_doc) = Some ?st \<and>
    (ProcessFailed ?st \<noteq> None \<or> ProcessSucceeded ?st \<noteq> None)"
    by (simp add: sample_poll_twice sample_status sample_ext_sel)
  from polling_repeats_until_terminal
    [where ext = sample_ext and pendingItem = sample_job and n = 2 and xml_init = "Some accepted_doc"
       and w_init = sample_world and doc' = succeeded_doc and w' = ?w and st' = ?st
       and this = "sample_function []", THEN conjunct2, THEN mp, OF h]
  show ?thesis
    by (auto simp: sample_world_def)
qed

text \<open>
  The claim C1 as stated fails: a document that reports neither success nor failure and
  carries a status location is not polled for when the pending item is not on the workbench.
\<close>

theorem polling_needs_pending_item_counterexample:
  "Status (sample_xml2json accepted_doc) = Some \<lparr>ProcessFailed = None, ProcessSucceeded = None\<rparr>
   \<and> statusLocation (sample_xml2json accepted_doc) = Some ''http://wps.example/status/7''
   \<and> handleExecuteResponse sample_ext (sample_function []) (Some accepted_doc) sample_job
        (sample_world\<lparr>workbench := []\<rparr>) =
      Some (Inr (), sample_world\<lparr>workbench := []\<rparr>)
   \<and> effects (sample_world\<lparr>workbench := []\<rparr>) = []"
  using handle_no_poll [of accepted_doc sample_ext "\<lparr>ProcessFailed = None, ProcessSucceeded = None\<rparr>"
      sample_job "sample_world\<lparr>workbench := []\<rparr>" "sample_function []"]
  by (simp add: sample_status sample_ext_sel sample_world_def)

lemma handle_succeeded:
  assumes "has_root (Some doc) ''ExecuteResponse''" "Status (xml2json ext doc) = Some st"
    "ProcessFailed st = None" "ProcessSucceeded st \<noteq> None"
  shows "handleExecuteResponse ext this (Some doc) p w =
         (case createCatalogItem ext this p (xml2json ext doc) of
            Inl e \<Rightarrow> Some (Inl e, w)
          | Inr item \<Rightarrow>
              Some (Inr (),
                    w\<lparr>effects := effects w @ [LoadMapItems item],
                      workbench := workbench_remove (PendingItem p)
                                     (workbench_add (ResultItem item) (workbench w))\<rparr>))"
  using assms by (subst handleExecuteResponse.simps) (simp add: Let_def isDefined_def)

lemma throwInvalidWpsServerError_supportEmail:
  "supportEmail w' = supportEmail w \<Longrightarrow>
   throwInvalidWpsServerError this w' endpoint = throwInvalidWpsServerError this w endpoint"
  by (simp add: throwInvalidWpsServerError_def)

text \<open>
  C2. The root element of every XML response is validated, with one failure for all:
  \<open>forceLoadMetadata\<close> throws the invalid-WPS-server error (for the endpoint DescribeProcess)
  whenever the DescribeProcess response is missing, has no root element or has a root whose
  local name is not \<open>ProcessDescriptions\<close>; \<open>handleExecuteResponse\<close> throws the same error (for the
  endpoint ExecuteResponse) whenever the Execute response, or the reply to any of its polls,
  is missing, has no root element or has a root whose local name is not \<open>ExecuteResponse\<close>.
\<close>

theorem root_element_validated:
  \<open>(describeProcessUrl ext this = Some u \<and> loadXML ext (clock w) u = Inr xml \<and>
    \<not> has_root xml ''ProcessDescriptions'' \<longrightarrow>
      forceLoadMetadata ext this w =
        (Inl (throwInvalidWpsServerError this w ''DescribeProcess''),
         w\<lparr>effects := effects w @ [HttpGet (clock w) u]\<rparr>))
 \<and> (\<not> has_root xml' ''ExecuteResponse'' \<longrightarrow>
      handleExecuteResponse ext this xml' pendingItem w =
        Some (Inl (throwInvalidWpsServerError this w ''ExecuteResponse''), w))
 \<and> (poll_n ext pendingItem n (xml_init, w_init) = Some (polled, w_polled) \<and>
    \<not> has_root polled ''ExecuteResponse'' \<longrightarrow>
      handleExecuteResponse ext this xml_init pendingItem w_init =
        Some (Inl (throwInvalidWpsServerError this w_polled ''ExecuteResponse''), w_polled))
 \<and> throwInvalidWpsServerError this w endpoint =
      TerriaError
        (Translated ''models.webProcessingService.invalidWPSServerTitle'' [])
        (Translated ''models.webProcessingService.invalidWPSServerMessage''
           [(''name'', name this),
            (''email'',
               Some (''<a href="mailto:'' @ js_template (supportEmail w) @ ''">'' @
                     js_template (supportEmail w) @ ''</a>.'')),
            (''endpoint'', Some endpoint)])
 \<and> (has_root xml n' \<longleftrightarrow>
      (\<exists>doc e. xml = Some doc \<and> documentElement doc = Some e \<and> localName e = n'))\<close>
proof (intro conjI impI)
  assume a: "describeProcessUrl ext this = Some u \<and> loadXML ext (clock w) u = Inr xml \<and>
    \<not> has_root xml ''ProcessDescriptions''"
  have "throwInvalidWpsServerError this (w\<lparr>effects := effects w @ [HttpGet (clock w) u]\<rparr>) ''DescribeProcess''
      = throwInvalidWpsServerError this w ''DescribeProcess''"
    by (rule throwInvalidWpsServerError_supportEmail) simp
  with a show "forceLoadMetadata ext this w =
        (Inl (throwInvalidWpsServerError this w ''DescribeProcess''),
         w\<lparr>effects := effects w @ [HttpGet (clock w) u]\<rparr>)"
    by (simp add: forceLoadMetadata_def getXml_def)
next
  assume "\<not> has_root xml' ''ExecuteResponse''"
  then show "handleExecuteResponse ext this xml' pendingItem w =
        Some (Inl (throwInvalidWpsServerError this w ''ExecuteResponse''), w)"
    by (rule handleExecuteResponse_invalid)
next
  assume a: "poll_n ext pendingItem n (xml_init, w_init) = Some (polled, w_polled) \<and>
    \<not> has_root polled ''ExecuteResponse''"
  then have "handleExecuteResponse ext this xml_init pendingItem w_init =
             handleExecuteResponse ext this polled pendingItem w_polled"
    using handle_poll_n [of ext pendingItem n xml_init w_init polled w_polled this] by simp
  with a show "handleExecuteResponse ext this xml_init pendingItem w_init =
        Some (Inl (throwInvalidWpsServerError this w_polled ''ExecuteResponse''), w_polled)"
    by (simp add: handleExecuteResponse_invalid)
next
  show \<open>throwInvalidWpsServerError this w endpoint =
      TerriaError
        (Translated ''models.webProcessingService.invalidWPSServerTitle'' [])
        (Translated ''models.webProcessingService.invalidWPSServerMessage''
           [(''name'', name this),
            (''email'',
               Some (''<a href="mailto:'' @ js_template (supportEmail w) @ ''">'' @
                     js_template (supportEmail w) @ ''</a>.'')),
            (''endpoint'', Some endpoint)])\<close>
    by (simp add: throwInvalidWpsServerError_def)
next
  show "has_root xml n' \<longleftrightarrow>
      (\<exists>doc e. xml = Some doc \<and> documentElement doc = Some e \<and> localName e = n')"
    by (rule has_root_iff)
qed

theorem root_element_validated_witness:
  \<open>forceLoadMetadata sample_ext (sample_function []) sample_world =
     (Inl (TerriaError
        (Translated ''models.webProcessingService.invalidWPSServerTitle'' [])
        (Translated ''models.webProcessingService.invalidWPSServerMessage''
           [(''name'', Some ''Buffer''),
            (''email'', Some ''<a href="mailto:help@wps.example">help@wps.example</a>.''),
            (''endpoint'', Some ''DescribeProcess'')])),
      sample_world\<lparr>effects :=
        [HttpGet 0 ''http://wps.example/wps?service=WPS&request=DescribeProcess&version=1.0.0&Identifier=buffer&'']\<rparr>)
   \<and> handleExecuteResponse sample_ext (sample_function []) (Some not_found_page) sample_job sample_world =
     Some (Inl (TerriaError
        (Translated ''models.webProcessingService.invalidWPSServerTitle'' [])
        (Translated ''models.webProcessingService.invalidWPSServerMessage''
           [(''name'', Some ''Buffer''),
            (''email'', Some ''<a href="mailto:help@wps.example">help@wps.example</a>.''),
            (''endpoint'', Some ''ExecuteResponse'')])),
           sample_world)\<close>
proof -
  let ?u = "''http://wps.example/wps?service=WPS&request=DescribeProcess&version=1.0.0&Identifier=buffer&''"
  have d: "describeProcessUrl sample_ext (sample_function []) = Some ?u"
    by (simp add: describeProcessUrl_def sample_function_def sample_ext_def)
  have l: "loadXML sample_ext (clock sample_world) ?u = Inr (Some not_found_page)"
    by (simp add: sample_ext_def)
  have r: "\<not> has_root (Some not_found_page) ''ProcessDescriptions''"
    "\<not> has_root (Some not_found_page) ''ExecuteResponse''"
    by (simp_all add: has_root_def not_found_page_def)
  note t = root_element_validated
    [where ext = sample_ext and this = "sample_function []" and w = sample_world and u = ?u
       and xml = "Some not_found_page" and xml' = "Some not_found_page" and pendingItem = sample_job]
  from t [THEN conjunct1] d l r
  have a: "forceLoadMetadata sample_ext (sample_function []) sample_world =
        (Inl (throwInvalidWpsServerError (sample_function []) sample_world ''DescribeProcess''),
         sample_world\<lparr>effects := effects sample_world @ [HttpGet (clock sample_world) ?u]\<rparr>)"
    by blast
  from t [THEN conjunct2, THEN conjunct1] r
  have b: "handleExecuteResponse sample_ext (sample_function []) (Some not_found_page) sample_job sample_world =
        Some (Inl (throwInvalidWpsServerError (sample_function []) sample_world ''ExecuteResponse''), sample_world)"
    by blast
  show ?thesis
    unfolding a b
    by (simp add: throwInvalidWpsServerError_def sample_function_def sample_world_def js_template_def)
qed

lemma convert_geometry_input:
  "convertInputToParameter sample_ext geometry_input =
     Some (PointParameter
             \<lparr>opt_id = ''geometry'', opt_name = None, opt_description = None,
              opt_isRequired = Some True, opt_converter = Some PointConverter\<rparr> None)"
  by (simp add: convertInputToParameter_def geometry_input_def complex_input_def parameterConverters_def
        PointConverter_def LineConverter_def PolygonConverter_def
        LiteralDataConverter_inputToParameter_def DateTimeConverter_inputToParameter_def
        simpleGeoJsonDataConverter_inputToParameter_def ComplexData_Schema_def
        indexOf_def lastIndexOf_def substring_def)

lemma convert_extent_input:
  "convertInputToParameter sample_ext extent_input =
     Some (RectangleParameter
             \<lparr>opt_id = ''extent'', opt_name = Some ''Extent'', opt_description = None,
              opt_isRequired = Some False, opt_converter = Some RectangleConverter\<rparr>
             ''EPSG:4326'' None)"
  by (simp add: convertInputToParameter_def extent_input_def parameterConverters_def
        PointConverter_def LineConverter_def PolygonConverter_def
        LiteralDataConverter_inputToParameter_def DateTimeConverter_inputToParameter_def
        simpleGeoJsonDataConverter_inputToParameter_def ComplexData_Schema_def
        RectangleConverter_inputToParameter_def sample_ext_def isDefined_def)

lemma sample_functionParameters:
  "functionParameters sample_ext
     ((sample_function [geometry_input, extent_input])
        \<lparr>enteredValues := [Some (PointValue \<lparr>longitude = 2, latitude = - 1, height = 10\<rparr>)]\<rparr>) =
     Inr [PointParameter
             \<lparr>opt_id = ''geometry'', opt_name = None, opt_description = None,
              opt_isRequired = Some True, opt_converter = Some PointConverter\<rparr>
             (Some \<lparr>longitude = 2, latitude = - 1, height = 10\<rparr>),
          RectangleParameter
             \<lparr>opt_id = ''extent'', opt_name = Some ''Extent'', opt_description = None,
              opt_isRequired = Some False, opt_converter = Some RectangleConverter\<rparr>
             ''EPSG:4326'' None]"
  by (simp add: functionParameters_def inputs_def sample_function_def
        convert_geometry_input convert_extent_input)

lemma functionParameters_kept:
  "functionParameters ext this = Inr ps \<Longrightarrow>
   \<exists>is created. inputs this = Inr is \<and> map_inputs ext is = Inr created \<and>
      ps = with_values (enteredValues this) created"
  by (auto simp: functionParameters_def split: sum.splits)

text \<open>
  C4, as amended. When \<open>handleExecuteResponse\<close> receives an ExecuteResponse whose Status
  contains ProcessSucceeded (and, as the WPS schema has it, no ProcessFailed) and the
  function parameters can be computed, it creates a \<open>WebProcessingServiceCatalogItem\<close> whose
  id is \<open>result-\<close> followed by the unique id of the pending item, with the name and the
  description of the pending item, the WPS response and the serialized function parameters
  (of each parameter, made from its input and holding the value that the user has entered,
  its name, its value as a string and its GeoJSON feature), loads its map items, adds it to
  the workbench and removes the pending item from the workbench.
\<close>

theorem succeeded_response_materialized:
  assumes "has_root (Some doc) ''ExecuteResponse''"
    and "Status (xml2json ext doc) = Some st"
    and "ProcessFailed st = None"
    and "ProcessSucceeded st = Some report"
    and "functionParameters ext this = Inr ps"
  shows
    "(let item =
        \<lparr>item_uniqueId = ''result-'' @ js_template (job_uniqueId pendingItem),
         item_name = job_name pendingItem,
         item_description = job_description pendingItem,
         item_wpsResponse = Some (xml2json ext doc),
         item_parameters =
           map (\<lambda>p. \<lparr>trait_name = parameterName ext p,
                     trait_value = formatValueAsString ext p,
                     trait_geoJsonFeature = geoJsonFeature ext p\<rparr>) ps\<rparr>;
          w' = w\<lparr>effects := effects w @ [LoadMapItems item],
                 workbench := workbench_remove (PendingItem pendingItem)
                                (workbench_add (ResultItem item) (workbench w))\<rparr>
      in handleExecuteResponse ext this (Some doc) pendingItem w = Some (Inr (), w')
       \<and> ResultItem item \<in> set (workbench w')
       \<and> PendingItem pendingItem \<notin> set (workbench w')
       \<and> (\<exists>is created. inputs this = Inr is \<and> map_inputs ext is = Inr created \<and>
             ps = with_values (enteredValues this) created))"
  using handle_succeeded [OF assms(1,2,3), of this pendingItem w] assms(4,5)
    functionParameters_kept [OF assms(5)]
  by (simp add: Let_def createCatalogItem_def workbench_remove_def workbench_add_def)

theorem succeeded_response_materialized_witness:
  "handleExecuteResponse sample_ext
     ((sample_function [geometry_input, extent_input])
        \<lparr>enteredValues := [Some (PointValue \<lparr>longitude = 2, latitude = - 1, height = 10\<rparr>)]\<rparr>)
     (Some succeeded_doc) sample_job sample_world =
   (let item =
      \<lparr>item_uniqueId = ''result-job-1'', item_name = Some ''Buffer job'',
       item_description = Some ''Buffer of a point'',
       item_wpsResponse = Some (sample_xml2json succeeded_doc),
       item_parameters =
         [\<lparr>trait_name = ''geometry'', trait_value = ''2,-1'',
           trait_geoJsonFeature =
             Some (JObject
               [(''type'', JString ''Feature''),
                (''geometry'',
                   JObject [(''type'', JString ''Point''),
                            (''coordinates'', JArray [JNumber 114, JNumber (- 57), JNumber 10])]),
                (''properties'', JObject [])])\<rparr>,
          \<lparr>trait_name = ''Extent'', trait_value = [], trait_geoJsonFeature = None\<rparr>]\<rparr>
    in Some (Inr (),
         \<lparr>clock = 0, supportEmail = Some ''help@wps.example'',
          workbench = [ResultItem item], effects = [LoadMapItems item]\<rparr>))"
proof -
  have n: "parameterName sample_ext = sample_parameterName"
    "formatValueAsString sample_ext = sample_formatValueAsString"
    "other_geoJsonFeature sample_ext = (\<lambda>p. None)"
    "toDegrees sample_ext = (\<lambda>r. 57 * r)"
    by (simp_all add: sample_ext_def)
  from succeeded_response_materialized
    [where ext = sample_ext and doc = succeeded_doc
       and st = "\<lparr>ProcessFailed = None, ProcessSucceeded = Some ''done''\<rparr>" and report = "''done''"
       and this = "(sample_function [geometry_input, extent_input])
          \<lparr>enteredValues := [Some (PointValue \<lparr>longitude = 2, latitude = - 1, height = 10\<rparr>)]\<rparr>"
       and pendingItem = sample_job
       and w = sample_world, OF _ _ _ _ sample_functionParameters]
  show ?thesis
    by (simp add: sample_status sample_ext_sel Let_def sample_job_def sample_world_def js_template_def
          workbench_add_def workbench_remove_def geoJsonFeature_def PointParameter_geoJsonFeature_def
          PointParameter_getGeoJsonFeature_def n sample_parameterName_def
          sample_formatValueAsString_def js_or_def int_text_def)
qed

text \<open>
  The claim C4 as stated fails: for a process description without inputs the computation
  of the function parameters throws, and the handler with it; the succeeded response
  creates no item and the pending item stays on the workbench.
\<close>

theorem succeeded_response_counterexample:
  "Status (sample_xml2json succeeded_doc) =
     Some \<lparr>ProcessFailed = None, ProcessSucceeded = Some ''done''\<rparr>
   \<and> handleExecuteResponse sample_ext
         ((sample_function [])\<lparr>processDescription :=
            Some \<lparr>DataInputs = None, storeSupported = None, statusSupported = None\<rparr>\<rparr>)
         (Some succeeded_doc) sample_job sample_world =
       Some (Inl (TerriaError
                    (Translated ''models.webProcessingService.processInputErrorTitle'' [])
                    (Translated ''models.webProcessingService.processInputErrorMessage'' [])),
             sample_world)
   \<and> workbench sample_world = [PendingItem sample_job]"
proof -
  have b: "handleExecuteResponse sample_ext
         ((sample_function [])\<lparr>processDescription :=
            Some \<lparr>DataInputs = None, storeSupported = None, statusSupported = None\<rparr>\<rparr>)
         (Some succeeded_doc) sample_job sample_world =
       Some (Inl (TerriaError
                    (Translated ''models.webProcessingService.processInputErrorTitle'' [])
                    (Translated ''models.webProcessingService.processInputErrorMessage'' [])),
             sample_world)"
    using handle_succeeded [of succeeded_doc sample_ext _ _ sample_job sample_world]
    by (simp add: sample_status sample_ext_sel createCatalogItem_def functionParameters_def inputs_def)
  from b show ?thesis by (simp add: sample_status sample_world_def)
qed

subsection \<open>Invoking the process\<close>

text \<open>
  C5. \<open>invoke\<close> is documented to perform the Execute request of the process. In the code its
  body is empty after the guard: it sends no request and leaves the state as it is, also
  for a function whose identifier and Execute URL are both defined.
\<close>

theorem invoke_sends_no_request:
  "invoke ext this w = w"
  by (simp add: invoke_def)

theorem invoke_sends_no_request_at_defined:
  "identifier' (sample_function []) = Some ''buffer''
   \<and> executeUrl sample_ext (sample_function []) =
       Some ''http://wps.example/wps?service=WPS&request=Execute&version=1.0.0&''
   \<and> invoke sample_ext (sample_function []) sample_world = sample_world
   \<and> effects (invoke sample_ext (sample_function []) sample_world) = []"
  using invoke_sends_no_request [of sample_ext "sample_function []" sample_world]
  by (simp add: executeUrl_def sample_function_def sample_ext_def sample_world_def)

subsection \<open>Strings\<close>

lemma indexOf_from_sublist: "indexOf_from p s i \<noteq> -1 \<longleftrightarrow> sublist p s"
proof (induction s arbitrary: i)
  case Nil
  then show ?case by simp
next
  case (Cons c cs)
  then show ?case by (auto simp: sublist_Cons_right)
qed

lemma indexOf_contains: "indexOf s p \<noteq> -1 \<longleftrightarrow> sublist p s"
  by (simp add: indexOf_def indexOf_from_sublist)

subsection \<open>The bounding box of a rectangle parameter\<close>

text \<open>
  C10. The axis order of a serialized bounding box depends on the CRS string alone: for a
  rectangle parameter with a value, \<open>parameterToInput\<close> gives the four corner coordinates in
  degrees, as west, south, east, north with the URN \<open>urn:ogc:def:crs:OGC:1.3:CRS84\<close> when the
  CRS of the parameter contains \<open>crs84\<close>, and otherwise as south, west, north, east with the
  URN \<open>urn:ogc:def:crs:EPSG:6.6:4326\<close>, whatever version the CRS names; without a value it
  returns nothing.
\<close>

theorem RectangleConverter_axis_order:
  "parameterToInput ext RectangleConverter (RectangleParameter opts crs v) =
     (case v of
        None \<Rightarrow> Inr None
      | Some r \<Rightarrow>
          Inr (Some
            \<lparr>inputValue =
               Some (if sublist ''crs84'' crs then
                       numberToString ext (toDegrees ext (west r)) @ '','' @
                       numberToString ext (toDegrees ext (south r)) @ '','' @
                       numberToString ext (toDegrees ext (east r)) @ '','' @
                       numberToString ext (toDegrees ext (north r)) @ '','' @
                       ''urn:ogc:def:crs:OGC:1.3:CRS84''
                     else
                       numberToString ext (toDegrees ext (south r)) @ '','' @
                       numberToString ext (toDegrees ext (west r)) @ '','' @
                       numberToString ext (toDegrees ext (north r)) @ '','' @
                       numberToString ext (toDegrees ext (east r)) @ '','' @
                       ''urn:ogc:def:crs:EPSG:6.6:4326''),
             inputType = ''BoundingBoxData''\<rparr>))"
  by (simp add: RectangleConverter_parameterToInput_def indexOf_contains split: option.splits)

theorem RectangleConverter_axis_order_witness:
  "parameterToInput sample_ext RectangleConverter
     (RectangleParameter sample_options ''urn:ogc:def:crs:OGC:1.3:crs84''
        (Some \<lparr>west = 1, south = - 2, east = 3, north = 4\<rparr>)) =
     Inr (Some \<lparr>inputValue = Some ''57,-114,171,228,urn:ogc:def:crs:OGC:1.3:CRS84'',
                inputType = ''BoundingBoxData''\<rparr>)
   \<and> parameterToInput sample_ext RectangleConverter
     (RectangleParameter sample_options ''urn:ogc:def:crs:EPSG:7.1:4326''
        (Some \<lparr>west = 1, south = - 2, east = 3, north = 4\<rparr>)) =
     Inr (Some \<lparr>inputValue = Some ''-114,57,228,171,urn:ogc:def:crs:EPSG:6.6:4326'',
                inputType = ''BoundingBoxData''\<rparr>)
   \<and> parameterToInput sample_ext RectangleConverter
     (RectangleParameter sample_options ''urn:ogc:def:crs:EPSG:7.1:4326'' None) = Inr None"
  using RectangleConverter_axis_order [of sample_ext sample_options "''urn:ogc:def:crs:OGC:1.3:crs84''"
      "Some \<lparr>west = 1, south = - 2, east = 3, north = 4\<rparr>"]
    RectangleConverter_axis_order [of sample_ext sample_options "''urn:ogc:def:crs:EPSG:7.1:4326''"
      "Some \<lparr>west = 1, south = - 2, east = 3, north = 4\<rparr>"]
    RectangleConverter_axis_order [of sample_ext sample_options "''urn:ogc:def:crs:EPSG:7.1:4326''" None]
  by (simp add: sample_ext_def int_text_def sublist_code)

subsection \<open>From inputs to parameters\<close>

lemmas inputToParameter_defs =
  LiteralDataConverter_inputToParameter_def DateTimeConverter_inputToParameter_def
  simpleGeoJsonDataConverter_inputToParameter_def RectangleConverter_inputToParameter_def
  GeoJsonGeometryConverter_inputToParameter_def

lemma new_klass_options: "options (new_klass k opts) = opts"
  by (cases k) simp_all

lemma inputToParameter_options:
  "inputToParameter ext c input opts = Some p \<Longrightarrow> options p = opts"
  by (cases c)
     (auto simp: inputToParameter_defs Let_def new_klass_options
           split: option.splits if_splits prod.splits)

lemma first_parameter_find:
  "first_parameter ext input opts cs =
     (case find (\<lambda>c. inputToParameter ext c input (opts c) \<noteq> None) cs of
        None \<Rightarrow> None
      | Some c \<Rightarrow> inputToParameter ext c input (opts c))"
  by (induction cs) (auto split: option.splits)

lemma distinct_parameterConverters: "distinct parameterConverters"
  by (simp add: parameterConverters_def PointConverter_def LineConverter_def PolygonConverter_def)

text \<open>
  C6. \<open>convertInputToParameter\<close> tries the converters in the order of the registry (literal
  data, date and time, point, line, polygon, rectangle, GeoJSON geometry) and returns the
  parameter of the first converter that accepts the input; the parameter records that
  converter and no other, so the earliest converter that accepts an input owns it. An input
  without an Identifier gives no parameter.
\<close>

theorem convertInputToParameter_first_match:
  "parameterConverters =
     [LiteralDataConverter, DateTimeConverter, PointConverter, LineConverter,
      PolygonConverter, RectangleConverter, GeoJsonGeometryConverter]
 \<and> distinct parameterConverters
 \<and> (Identifier input = None \<longrightarrow> convertInputToParameter ext input = None)
 \<and> (let opts = (\<lambda>ident converter.
                   \<lparr>opt_id = ident, opt_name = Name input, opt_description = Abstract input,
                    opt_isRequired = Some (case minOccurs input of Some m \<Rightarrow> 0 < m | None \<Rightarrow> False),
                    opt_converter = Some converter\<rparr>);
         accepts = (\<lambda>ident converter. inputToParameter ext converter input (opts ident converter) \<noteq> None)
     in (\<forall>ident. Identifier input = Some ident \<longrightarrow>
           convertInputToParameter ext input =
             (case find (accepts ident) parameterConverters of
                None \<Rightarrow> None
              | Some converter \<Rightarrow> inputToParameter ext converter input (opts ident converter)))
      \<and> (\<forall>p. convertInputToParameter ext input = Some p \<longrightarrow>
           (\<exists>ident converter.
              Identifier input = Some ident \<and>
              find (accepts ident) parameterConverters = Some converter \<and>
              inputToParameter ext converter input (opts ident converter) = Some p \<and>
              opt_converter (options p) = Some converter \<and>
              (\<forall>c. opt_converter (options p) = Some c \<longrightarrow> c = converter))))"
proof -
  let ?opts = "\<lambda>ident converter.
                   \<lparr>opt_id = ident, opt_name = Name input, opt_description = Abstract input,
                    opt_isRequired = Some (case minOccurs input of Some m \<Rightarrow> 0 < m | None \<Rightarrow> False),
                    opt_converter = Some converter\<rparr>"
  let ?accepts = "\<lambda>ident converter. inputToParameter ext converter input (?opts ident converter) \<noteq> None"
  have a: "convertInputToParameter ext input =
             (case find (?accepts ident) parameterConverters of
                None \<Rightarrow> None
              | Some converter \<Rightarrow> inputToParameter ext converter input (?opts ident converter))"
    if "Identifier input = Some ident" for ident
    using that by (simp add: convertInputToParameter_def first_parameter_find Let_def)
  have b: "\<exists>ident converter.
              Identifier input = Some ident \<and>
              find (?accepts ident) parameterConverters = Some converter \<and>
              inputToParameter ext converter input (?opts ident converter) = Some p \<and>
              opt_converter (options p) = Some converter \<and>
              (\<forall>c. opt_converter (options p) = Some c \<longrightarrow> c = converter)"
    if p: "convertInputToParameter ext input = Some p" for p
  proof -
    from p obtain ident where i: "Identifier input = Some ident"
      by (auto simp: convertInputToParameter_def split: option.splits)
    from p a [OF i] obtain converter where
      f: "find (?accepts ident) parameterConverters = Some converter"
      and r: "inputToParameter ext converter input (?opts ident converter) = Some p"
      by (auto split: option.splits)
    from inputToParameter_options [OF r] have "opt_converter (options p) = Some converter"
      by simp
    with i f r show ?thesis by auto
  qed
  have c: "Identifier input = None \<Longrightarrow> convertInputToParameter ext input = None"
    by (simp add: convertInputToParameter_def)
  have r: "parameterConverters =
     [LiteralDataConverter, DateTimeConverter, PointConverter, LineConverter,
      PolygonConverter, RectangleConverter, GeoJsonGeometryConverter]"
    by (simp add: parameterConverters_def)
  show ?thesis
    unfolding Let_def using a b c r distinct_parameterConverters by blast
qed


theorem convertInputToParameter_first_match_witness:
  "convertInputToParameter sample_ext geometry_input =
     Some (PointParameter
             \<lparr>opt_id = ''geometry'', opt_name = None, opt_description = None,
              opt_isRequired = Some True, opt_converter = Some PointConverter\<rparr> None)
   \<and> inputToParameter sample_ext GeoJsonGeometryConverter geometry_input
       \<lparr>opt_id = ''geometry'', opt_name = None, opt_description = None,
        opt_isRequired = Some True, opt_converter = Some GeoJsonGeometryConverter\<rparr> =
     Some (GeoJsonParameter
            \<lparr>opt_id = ''geometry'', opt_name = None, opt_description = None,
             opt_isRequired = Some True, opt_converter = Some GeoJsonGeometryConverter\<rparr>
            (RegionParameter
               \<lparr>opt_id = ''regionParameter'', opt_name = Some ''Region Parameter'',
                opt_description = None, opt_isRequired = None, opt_converter = None\<rparr>
               (RegionTypeParameter
                  \<lparr>opt_id = ''regionType'', opt_name = Some ''Region Type'',
                   opt_description = Some ''The type of region to analyze.'',
                   opt_isRequired = None, opt_converter = None\<rparr>))
            None)"
proof -
  have i: "Identifier geometry_input = Some ''geometry''"
    by (simp add: geometry_input_def complex_input_def)
  note e = convertInputToParameter_first_match
    [of geometry_input sample_ext, unfolded Let_def, THEN conjunct2, THEN conjunct2,
     THEN conjunct2, THEN conjunct1, rule_format, OF i]
  show ?thesis
    unfolding e
    by (simp add: geometry_input_def complex_input_def parameterConverters_def
          PointConverter_def LineConverter_def PolygonConverter_def
          inputToParameter_defs ComplexData_Schema_def indexOf_def lastIndexOf_def substring_def)
qed

lemma indexOf_from_bounds: "indexOf_from p s i = -1 \<or> int i \<le> indexOf_from p s i"
proof (induction s arbitrary: i)
  case Nil
  then show ?case by simp
next
  case (Cons c cs)
  from Cons [of "Suc i"] show ?case by auto
qed

lemma indexOf_prefix: "indexOf s p = 0 \<longleftrightarrow> prefix p s"
proof (cases s)
  case Nil
  then show ?thesis by (simp add: indexOf_def)
next
  case (Cons c cs)
  from indexOf_from_bounds [of p cs "Suc 0"] Cons show ?thesis
    by (auto simp: indexOf_def)
qed

lemma map_inputs_first_failure:
  "(\<forall>i\<in>set before. convertInputToParameter ext i \<noteq> None) \<Longrightarrow>
   convertInputToParameter ext input = None \<Longrightarrow>
   map_inputs ext (before @ input # after) = Inl (unsupportedParameterError input)"
  by (induction before) (auto split: option.splits sum.splits)

lemma map_inputs_some_failure:
  "input \<in> set is \<Longrightarrow> convertInputToParameter ext input = None \<Longrightarrow>
   \<exists>before first after.
      is = before @ first # after \<and>
      (\<forall>i\<in>set before. convertInputToParameter ext i \<noteq> None) \<and>
      convertInputToParameter ext first = None \<and>
      (first = input \<or> input \<in> set after) \<and>
      map_inputs ext is = Inl (unsupportedParameterError first)"
proof (induction "is")
  case Nil
  then show ?case by simp
next
  case (Cons a as)
  show ?case
  proof (cases "convertInputToParameter ext a")
    case None
    with Cons.prems have
      "a # as = [] @ a # as \<and> (\<forall>i\<in>set []. convertInputToParameter ext i \<noteq> None) \<and>
       convertInputToParameter ext a = None \<and> (a = input \<or> input \<in> set as) \<and>
       map_inputs ext (a # as) = Inl (unsupportedParameterError a)"
      by auto
    then show ?thesis by blast
  next
    case (Some p)
    with Cons.prems have "input \<in> set as" by auto
    from Cons.IH [OF this Cons.prems(2)] obtain before first after where
      h: "as = before @ first # after"
        "\<forall>i\<in>set before. convertInputToParameter ext i \<noteq> None"
        "convertInputToParameter ext first = None"
        "first = input \<or> input \<in> set after"
        "map_inputs ext as = Inl (unsupportedParameterError first)"
      by blast
    with Some have
      "a # as = (a # before) @ first # after \<and>
       (\<forall>i\<in>set (a # before). convertInputToParameter ext i \<noteq> None) \<and>
       convertInputToParameter ext first = None \<and> (first = input \<or> input \<in> set after) \<and>
       map_inputs ext (a # as) = Inl (unsupportedParameterError first)"
      by simp
    then show ?thesis by blast
  qed
qed

lemma convert_supported:
  assumes "convertInputToParameter ext input = Some p"
  shows "(\<exists>ld. LiteralData input = Some ld \<and>
            (Option.bind (case AllowedValues ld of Some a \<Rightarrow> Some a | None \<Rightarrow> AllowedValue ld) Value \<noteq> None
             \<or> AnyValue ld \<noteq> None))
       \<or> (\<exists>schema. ComplexData_Schema input = Some schema \<and>
            (schema = ''http://www.w3.org/TR/xmlschema-2/#dateTime''
             \<or> prefix ''http://geojson.org/geojson-spec.html#'' schema))
       \<or> BoundingBoxData input \<noteq> None"
proof -
  from assms obtain c opts where "inputToParameter ext c input opts = Some p"
    by (auto simp: convertInputToParameter_def first_parameter_find Let_def split: option.splits)
  then show ?thesis
    by (cases c)
       (auto simp: inputToParameter_defs Let_def isDefined_def indexOf_prefix
             split: option.splits if_splits)
qed


text \<open>
  C3, as amended. An input is converted into a function parameter only when it has
  LiteralData with enumerated values or with AnyValue, ComplexData with the dateTime schema or
  with a GeoJSON geometry schema, or BoundingBoxData; an input with none of these is not
  converted. \<open>functionParameters\<close> throws an \<open>Unsupported parameter type\<close> error that names the
  first input that is not converted. So when an input of the process has none of these
  encodings, the error is thrown and names the first input that is not converted: that
  input itself, or one before it.
\<close>

theorem supported_input_encodings:
  "(let supported = (\<lambda>input.
          (\<exists>ld. LiteralData input = Some ld \<and>
             (Option.bind (case AllowedValues ld of Some a \<Rightarrow> Some a | None \<Rightarrow> AllowedValue ld) Value \<noteq> None
              \<or> AnyValue ld \<noteq> None))
        \<or> (\<exists>schema. ComplexData_Schema input = Some schema \<and>
             (schema = ''http://www.w3.org/TR/xmlschema-2/#dateTime''
              \<or> prefix ''http://geojson.org/geojson-spec.html#'' schema))
        \<or> BoundingBoxData input \<noteq> None);
        unsupported = (\<lambda>input.
          TerriaError (Literal ''Unsupported parameter type'')
            (Literal (''The parameter '' @ js_template (Identifier input) @
                      '' is not a supported type of parameter.'')))
    in (convertInputToParameter ext input = Some p \<longrightarrow> supported input)
     \<and> (\<not> supported input \<longrightarrow> convertInputToParameter ext input = None)
     \<and> (inputs this = Inr (before @ input # after) \<and>
        (\<forall>i\<in>set before. convertInputToParameter ext i \<noteq> None) \<and>
        convertInputToParameter ext input = None \<longrightarrow>
          functionParameters ext this = Inl (unsupported input))
     \<and> (inputs this = Inr is \<and> input \<in> set is \<and> \<not> supported input \<longrightarrow>
          (\<exists>before' first after'.
             is = before' @ first # after' \<and>
             (\<forall>i\<in>set before'. convertInputToParameter ext i \<noteq> None) \<and>
             convertInputToParameter ext first = None \<and>
             (first = input \<or> input \<in> set after') \<and>
             functionParameters ext this = Inl (unsupported first))))"
proof -
  let ?supported = "\<lambda>input.
          (\<exists>ld. LiteralData input = Some ld \<and>
             (Option.bind (case AllowedValues ld of Some a \<Rightarrow> Some a | None \<Rightarrow> AllowedValue ld) Value \<noteq> None
              \<or> AnyValue ld \<noteq> None))
        \<or> (\<exists>schema. ComplexData_Schema input = Some schema \<and>
             (schema = ''http://www.w3.org/TR/xmlschema-2/#dateTime''
              \<or> prefix ''http://geojson.org/geojson-spec.html#'' schema))
        \<or> BoundingBoxData input \<noteq> None"
  have a: "?supported input" if "convertInputToParameter ext input = Some p"
    using that by (rule convert_supported)
  have n: "convertInputToParameter ext input = None" if "\<not> ?supported input"
  proof (cases "convertInputToParameter ext input")
    case None
    then show ?thesis .
  next
    case (Some q)
    from convert_supported [OF this] that show ?thesis by blast
  qed
  have b: "functionParameters ext this = Inl (unsupportedParameterError input)"
    if "inputs this = Inr (before @ input # after)"
      "\<forall>i\<in>set before. convertInputToParameter ext i \<noteq> None"
      "convertInputToParameter ext input = None"
    using that by (simp add: functionParameters_def map_inputs_first_failure)
  have c: "\<exists>before' first after'.
             is = before' @ first # after' \<and>
             (\<forall>i\<in>set before'. convertInputToParameter ext i \<noteq> None) \<and>
             convertInputToParameter ext first = None \<and>
             (first = input \<or> input \<in> set after') \<and>
             functionParameters ext this = Inl (unsupportedParameterError first)"
    if h: "inputs this = Inr is" "input \<in> set is" "\<not> ?supported input"
  proof -
    from map_inputs_some_failure [OF h(2) n [OF h(3)]] obtain before' first after' where
      m: "is = before' @ first # after'"
        "\<forall>i\<in>set before'. convertInputToParameter ext i \<noteq> None"
        "convertInputToParameter ext first = None"
        "first = input \<or> input \<in> set after'"
        "map_inputs ext is = Inl (unsupportedParameterError first)"
      by blast
    from h(1) m(5) have "functionParameters ext this = Inl (unsupportedParameterError first)"
      by (simp add: functionParameters_def)
    with m show ?thesis by blast
  qed
  from a n b c show ?thesis
    unfolding Let_def unsupportedParameterError_def by blast
qed

lemma convert_unsupported_samples:
  "convertInputToParameter sample_ext raster_input = None"
  "convertInputToParameter sample_ext table_input = None"
  "convertInputToParameter sample_ext footprint_input = None"
  by (simp_all add: convertInputToParameter_def raster_input_def table_input_def complex_input_def
        footprint_input_def sample_ext_def isDefined_def
        parameterConverters_def PointConverter_def LineConverter_def PolygonConverter_def
        inputToParameter_defs ComplexData_Schema_def indexOf_def lastIndexOf_def substring_def)

theorem supported_input_encodings_witness:
  "functionParameters sample_ext
     (sample_function [geometry_input, footprint_input, raster_input]) =
     Inl (TerriaError (Literal ''Unsupported parameter type'')
            (Literal ''The parameter footprint is not a supported type of parameter.''))"
proof -
  have i: "inputs (sample_function [geometry_input, footprint_input, raster_input]) =
             Inr ([geometry_input] @ footprint_input # [raster_input])"
    by (simp add: inputs_def sample_function_def)
  have b: "\<forall>i\<in>set [geometry_input]. convertInputToParameter sample_ext i \<noteq> None"
    by (simp add: convert_geometry_input)
  have u: "Identifier footprint_input = Some ''footprint''"
    by (simp add: footprint_input_def)
  from supported_input_encodings
    [where ext = sample_ext and input = footprint_input
       and this = "sample_function [geometry_input, footprint_input, raster_input]"
       and before = "[geometry_input]" and after = "[raster_input]",
     unfolded Let_def, THEN conjunct2, THEN conjunct2, THEN conjunct1]
    i b u convert_unsupported_samples(3)
  show ?thesis by (simp add: js_template_def)
qed

text \<open>
  The claim C3 as stated fails: literal data without enumerated values but with AnyValue is
  converted (to a string parameter), and of two inputs that match no encoding the error
  names the first only.
\<close>

theorem supported_input_encodings_counterexample:
  "label_input =
     \<lparr>Identifier = Some ''label'', Name = None, Abstract = None,
      LiteralData = Some \<lparr>AllowedValues = None, AllowedValue = None, AnyValue = Some ()\<rparr>,
      ComplexData = None, BoundingBoxData = None, minOccurs = None\<rparr>
   \<and> convertInputToParameter sample_ext label_input =
       Some (StringParameter
               \<lparr>opt_id = ''label'', opt_name = None, opt_description = None,
                opt_isRequired = Some False, opt_converter = Some LiteralDataConverter\<rparr> None)
   \<and> LiteralData table_input = None
   \<and> ComplexData_Schema table_input = Some ''http://www.w3.org/TR/xmlschema-2/#string''
   \<and> BoundingBoxData table_input = None
   \<and> functionParameters sample_ext (sample_function [raster_input, table_input]) =
       Inl (TerriaError (Literal ''Unsupported parameter type'')
              (Literal ''The parameter raster is not a supported type of parameter.''))"
proof -
  have a: "convertInputToParameter sample_ext label_input =
       Some (StringParameter
               \<lparr>opt_id = ''label'', opt_name = None, opt_description = None,
                opt_isRequired = Some False, opt_converter = Some LiteralDataConverter\<rparr> None)"
    by (simp add: convertInputToParameter_def label_input_def literal_input_def parameterConverters_def
          inputToParameter_defs isDefined_def)
  have b: "functionParameters sample_ext (sample_function [raster_input, table_input]) =
       Inl (TerriaError (Literal ''Unsupported parameter type'')
              (Literal ''The parameter raster is not a supported type of parameter.''))"
    by (simp add: functionParameters_def inputs_def sample_function_def convert_unsupported_samples
          unsupportedParameterError_def)
       (simp add: raster_input_def complex_input_def js_template_def)
  from a b show ?thesis
    by (simp add: label_input_def literal_input_def table_input_def complex_input_def
          ComplexData_Schema_def)
qed

subsection \<open>From parameters back to inputs\<close>

lemma inputToParameter_type:
  "inputToParameter ext c input opts = Some p \<Longrightarrow>
   (case c of
      LiteralDataConverter \<Rightarrow> type_of p = EnumerationType \<or> type_of p = StringType
    | DateTimeConverter \<Rightarrow> type_of p = DateTimeType
    | simpleGeoJsonDataConverter schemaType k \<Rightarrow>
        type_of p = (case k of PointParameterClass \<Rightarrow> PointType
                             | LineParameterClass \<Rightarrow> LineType
                             | PolygonParameterClass \<Rightarrow> PolygonType)
    | RectangleConverter \<Rightarrow> type_of p = RectangleType
    | GeoJsonGeometryConverter \<Rightarrow> type_of p = GeoJsonType)"
  by (cases c)
     (auto simp: inputToParameter_defs Let_def
           split: option.splits if_splits prod.splits klass.splits)

lemma literal_parameterToInput:
  "type_of p = EnumerationType \<or> type_of p = StringType \<Longrightarrow>
   (\<exists>possibleValues v. p = EnumerationParameter (options p) possibleValues v \<and>
      LiteralDataConverter_parameterToInput p =
        Inr (Some \<lparr>inputValue = v, inputType = ''LiteralData''\<rparr>))
   \<or> (\<exists>v. p = StringParameter (options p) v \<and>
      LiteralDataConverter_parameterToInput p =
        Inr (Some \<lparr>inputValue = v, inputType = ''LiteralData''\<rparr>))"
  by (cases p) (simp_all add: LiteralDataConverter_parameterToInput_def)

lemma dateTime_parameterToInput:
  "type_of p = DateTimeType \<Longrightarrow>
   \<exists>v. p = DateTimeParameter (options p) v \<and>
     DateTimeConverter_parameterToInput ext p =
       Inr (Some \<lparr>inputValue = DateTimeParameter_formatValueForUrl ext (value_or_empty v),
                  inputType = ''ComplexData''\<rparr>)"
  by (cases p) (simp_all add: DateTimeConverter_parameterToInput_def)

lemma point_parameterToInput:
  "type_of p = PointType \<Longrightarrow>
   \<exists>v. p = PointParameter (options p) v \<and>
     (\<forall>c. v = Some c \<longrightarrow>
        simpleGeoJsonDataConverter_parameterToInput ext PointParameterClass p =
          Inr (Some \<lparr>inputValue = Some (PointParameter_formatValueForUrl ext c),
                     inputType = ''ComplexData''\<rparr>))"
  by (cases p) (simp_all add: simpleGeoJsonDataConverter_parameterToInput_def)

lemma line_parameterToInput:
  "type_of p = LineType \<Longrightarrow>
   \<exists>v. p = LineParameter (options p) v \<and>
     simpleGeoJsonDataConverter_parameterToInput ext LineParameterClass p =
       (case LineParameter_formatValueForUrl ext v of
          Inl e \<Rightarrow> Inl e
        | Inr s \<Rightarrow> Inr (Some \<lparr>inputValue = s, inputType = ''ComplexData''\<rparr>))"
  by (cases p) (simp_all add: simpleGeoJsonDataConverter_parameterToInput_def)

lemma polygon_parameterToInput:
  "type_of p = PolygonType \<Longrightarrow>
   \<exists>v. p = PolygonParameter (options p) v \<and>
     simpleGeoJsonDataConverter_parameterToInput ext PolygonParameterClass p =
       (case PolygonParameter_formatValueForUrl ext v of
          Inl e \<Rightarrow> Inl e
        | Inr s \<Rightarrow> Inr (Some \<lparr>inputValue = s, inputType = ''ComplexData''\<rparr>))"
  by (cases p) (simp_all add: simpleGeoJsonDataConverter_parameterToInput_def)

lemma simpleGeoJson_parameterToInput:
  "simpleGeoJsonDataConverter_parameterToInput ext k p = Inr (Some r) \<Longrightarrow> inputType r = ''ComplexData''"
  by (auto simp: simpleGeoJsonDataConverter_parameterToInput_def split: sum.splits)

lemma rectangle_parameterToInput:
  "RectangleConverter_parameterToInput ext p = Inr (Some r) \<Longrightarrow> inputType r = ''BoundingBoxData''"
  by (cases p)
     (auto simp: RectangleConverter_parameterToInput_def Let_def split: option.splits if_splits)

lemma rectangle_parameterToInput_value:
  "type_of p = RectangleType \<Longrightarrow>
   \<exists>crs v. p = RectangleParameter (options p) crs v \<and>
     (v = None \<longrightarrow> RectangleConverter_parameterToInput ext p = Inr None) \<and>
     (v \<noteq> None \<longrightarrow>
        (\<exists>s. RectangleConverter_parameterToInput ext p =
               Inr (Some \<lparr>inputValue = Some s, inputType = ''BoundingBoxData''\<rparr>)))"
  by (cases p) (auto simp: RectangleConverter_parameterToInput_def Let_def)

lemma geoJson_parameterToInput:
  "type_of p = GeoJsonType \<Longrightarrow>
   \<exists>region v. p = GeoJsonParameter (options p) region v \<and>
     GeoJsonGeometryConverter_parameterToInput ext p =
       (case v of None \<Rightarrow> Inr None
        | Some val \<Rightarrow> if val = JNull then Inr None else getProcessedValue ext val)"
  by (cases p) (simp_all add: GeoJsonGeometryConverter_parameterToInput_def)

text \<open>
  C7, as amended. For a parameter of the class that a converter makes from a WPS input,
  holding that converter and whatever value, the \<open>parameterToInput\<close> of the converter gives:
  for the literal data converter, the value with the input type \<open>LiteralData\<close>; for the date
  converter, the formatted value with \<open>ComplexData\<close>; for the point converter and a point with
  a value, its GeoJSON text with \<open>ComplexData\<close>; for the line and polygon converters, the
  text of the \<open>formatValueForUrl\<close> of their class with \<open>ComplexData\<close>, whenever that returns; for
  the rectangle converter, a text with \<open>BoundingBoxData\<close> when the parameter has a value and
  nothing when it has none; for the GeoJSON geometry converter, nothing for a value that is
  undefined or null and otherwise what \<open>GeoJsonParameter.getProcessedValue\<close> gives.
  \<open>convertParameterToInput\<close> pairs the value and the input type of the result with the id of
  the parameter as the input identifier, and returns nothing when there is no result or its
  value is undefined.
\<close>

theorem converters_serialize_their_parameters:
  assumes "inputToParameter ext converter input opts = Some created"
    and "type_of parameter = type_of created"
    and "options parameter = opts"
    and "opt_converter opts = Some converter"
  shows
    "(\<forall>r. parameterToInput ext converter parameter = Inr (Some r) \<and>
          converter \<noteq> GeoJsonGeometryConverter \<longrightarrow>
          inputType r =
            (case converter of
               LiteralDataConverter \<Rightarrow> ''LiteralData''
             | RectangleConverter \<Rightarrow> ''BoundingBoxData''
             | _ \<Rightarrow> ''ComplexData''))
   \<and> (converter = LiteralDataConverter \<longrightarrow>
        (\<exists>v. ((\<exists>possibleValues. parameter = EnumerationParameter opts possibleValues v) \<or>
              parameter = StringParameter opts v) \<and>
             parameterToInput ext converter parameter =
               Inr (Some \<lparr>inputValue = v, inputType = ''LiteralData''\<rparr>)))
   \<and> (converter = DateTimeConverter \<longrightarrow>
        (\<exists>v. parameter = DateTimeParameter opts v \<and>
             parameterToInput ext converter parameter =
               Inr (Some \<lparr>inputValue = DateTimeParameter_formatValueForUrl ext (value_or_empty v),
                          inputType = ''ComplexData''\<rparr>)))
   \<and> (\<forall>schemaType. converter = simpleGeoJsonDataConverter schemaType PointParameterClass \<longrightarrow>
        (\<exists>v. parameter = PointParameter opts v \<and>
           (\<forall>c. v = Some c \<longrightarrow>
              parameterToInput ext converter parameter =
                Inr (Some \<lparr>inputValue = Some (PointParameter_formatValueForUrl ext c),
                           inputType = ''ComplexData''\<rparr>))))
   \<and> (\<forall>schemaType. converter = simpleGeoJsonDataConverter schemaType LineParameterClass \<longrightarrow>
        (\<exists>v. parameter = LineParameter opts v \<and>
           parameterToInput ext converter parameter =
             (case LineParameter_formatValueForUrl ext v of
                Inl e \<Rightarrow> Inl e
              | Inr s \<Rightarrow> Inr (Some \<lparr>inputValue = s, inputType = ''ComplexData''\<rparr>))))
   \<and> (\<forall>schemaType. converter = simpleGeoJsonDataConverter schemaType PolygonParameterClass \<longrightarrow>
        (\<exists>v. parameter = PolygonParameter opts v \<and>
           parameterToInput ext converter parameter =
             (case PolygonParameter_formatValueForUrl ext v of
                Inl e \<Rightarrow> Inl e
              | Inr s \<Rightarrow> Inr (Some \<lparr>inputValue = s, inputType = ''ComplexData''\<rparr>))))
   \<and> (converter = RectangleConverter \<longrightarrow>
        (\<exists>crs v. parameter = RectangleParameter opts crs v \<and>
           (v = None \<longrightarrow> parameterToInput ext converter parameter = Inr None) \<and>
           (v \<noteq> None \<longrightarrow>
              (\<exists>s. parameterToInput ext converter parameter =
                     Inr (Some \<lparr>inputValue = Some s, inputType = ''BoundingBoxData''\<rparr>)))))
   \<and> (converter = GeoJsonGeometryConverter \<longrightarrow>
        (\<exists>region v. parameter = GeoJsonParameter opts region v \<and>
           parameterToInput ext converter parameter =
             (case v of None \<Rightarrow> Inr None
              | Some val \<Rightarrow> if val = JNull then Inr None else getProcessedValue ext val)))
   \<and> convertParameterToInput ext parameter =
       (case parameterToInput ext converter parameter of
          Inl e \<Rightarrow> Inl e
        | Inr None \<Rightarrow> Inr None
        | Inr (Some r) \<Rightarrow>
            (case inputValue r of
               None \<Rightarrow> Inr None
             | Some v \<Rightarrow>
                 Inr (Some \<lparr>inputIdentifier = opt_id opts, wps_inputValue = v,
                            wps_inputType = inputType r\<rparr>)))"
proof -
  note t = inputToParameter_type [OF assms(1)]
  have a: "inputType r =
            (case converter of
               LiteralDataConverter \<Rightarrow> ''LiteralData''
             | RectangleConverter \<Rightarrow> ''BoundingBoxData''
             | _ \<Rightarrow> ''ComplexData'')"
    if "parameterToInput ext converter parameter = Inr (Some r)"
      "converter \<noteq> GeoJsonGeometryConverter" for r
  proof (cases converter)
    case LiteralDataConverter
    with t assms(2) literal_parameterToInput [of parameter] that show ?thesis by auto
  next
    case DateTimeConverter
    with t assms(2) dateTime_parameterToInput [of parameter ext] that show ?thesis by auto
  next
    case (simpleGeoJsonDataConverter schemaType k)
    with that simpleGeoJson_parameterToInput [of ext k parameter r] show ?thesis by simp
  next
    case RectangleConverter
    with that rectangle_parameterToInput [of ext parameter r] show ?thesis by simp
  next
    case GeoJsonGeometryConverter
    with that show ?thesis by simp
  qed
  have b: "\<exists>v. ((\<exists>possibleValues. parameter = EnumerationParameter opts possibleValues v) \<or>
              parameter = StringParameter opts v) \<and>
             parameterToInput ext converter parameter =
               Inr (Some \<lparr>inputValue = v, inputType = ''LiteralData''\<rparr>)"
    if "converter = LiteralDataConverter"
    using that t assms(2,3) literal_parameterToInput [of parameter] by auto
  have c: "\<exists>v. parameter = DateTimeParameter opts v \<and>
             parameterToInput ext converter parameter =
               Inr (Some \<lparr>inputValue = DateTimeParameter_formatValueForUrl ext (value_or_empty v),
                          inputType = ''ComplexData''\<rparr>)"
    if "converter = DateTimeConverter"
    using that t assms(2,3) dateTime_parameterToInput [of parameter ext] by simp
  have p: "\<exists>v. parameter = PointParameter opts v \<and>
           (\<forall>c. v = Some c \<longrightarrow>
              parameterToInput ext converter parameter =
                Inr (Some \<lparr>inputValue = Some (PointParameter_formatValueForUrl ext c),
                           inputType = ''ComplexData''\<rparr>))"
    if "converter = simpleGeoJsonDataConverter schemaType PointParameterClass" for schemaType
    using that t assms(2,3) point_parameterToInput [of parameter ext] by simp
  have l: "\<exists>v. parameter = LineParameter opts v \<and>
           parameterToInput ext converter parameter =
             (case LineParameter_formatValueForUrl ext v of
                Inl e \<Rightarrow> Inl e
              | Inr s \<Rightarrow> Inr (Some \<lparr>inputValue = s, inputType = ''ComplexData''\<rparr>))"
    if "converter = simpleGeoJsonDataConverter schemaType LineParameterClass" for schemaType
    using that t assms(2,3) line_parameterToInput [of parameter ext] by simp
  have g: "\<exists>v. parameter = PolygonParameter opts v \<and>
           parameterToInput ext converter parameter =
             (case PolygonParameter_formatValueForUrl ext v of
                Inl e \<Rightarrow> Inl e
              | Inr s \<Rightarrow> Inr (Some \<lparr>inputValue = s, inputType = ''ComplexData''\<rparr>))"
    if "converter = simpleGeoJsonDataConverter schemaType PolygonParameterClass" for schemaType
    using that t assms(2,3) polygon_parameterToInput [of parameter ext] by simp
  have r: "\<exists>crs v. parameter = RectangleParameter opts crs v \<and>
           (v = None \<longrightarrow> parameterToInput ext converter parameter = Inr None) \<and>
           (v \<noteq> None \<longrightarrow>
              (\<exists>s. parameterToInput ext converter parameter =
                     Inr (Some \<lparr>inputValue = Some s, inputType = ''BoundingBoxData''\<rparr>)))"
    if "converter = RectangleConverter"
    using that t assms(2,3) rectangle_parameterToInput_value [of parameter ext] by simp
  have d: "\<exists>region v. parameter = GeoJsonParameter opts region v \<and>
           parameterToInput ext converter parameter =
             (case v of None \<Rightarrow> Inr None
              | Some val \<Rightarrow> if val = JNull then Inr None else getProcessedValue ext val)"
    if "converter = GeoJsonGeometryConverter"
    using that t assms(2,3) geoJson_parameterToInput [of parameter ext] by simp
  have e: "convertParameterToInput ext parameter =
       (case parameterToInput ext converter parameter of
          Inl e \<Rightarrow> Inl e
        | Inr None \<Rightarrow> Inr None
        | Inr (Some r) \<Rightarrow>
            (case inputValue r of
               None \<Rightarrow> Inr None
             | Some v \<Rightarrow>
                 Inr (Some \<lparr>inputIdentifier = opt_id opts, wps_inputValue = v,
                            wps_inputType = inputType r\<rparr>)))"
    using assms(4) unfolding assms(3) [symmetric] by (simp add: convertParameterToInput_def)
  show ?thesis
    by (intro conjI allI impI a b c p l g r d e) (simp_all)
qed

theorem converters_serialize_their_parameters_witness:
  \<open>inputToParameter sample_ext PointConverter geometry_input
     \<lparr>opt_id = ''geometry'', opt_name = None, opt_description = None,
      opt_isRequired = Some True, opt_converter = Some PointConverter\<rparr> =
     Some (PointParameter
             \<lparr>opt_id = ''geometry'', opt_name = None, opt_description = None,
              opt_isRequired = Some True, opt_converter = Some PointConverter\<rparr> None)
   \<and> convertParameterToInput sample_ext
       (PointParameter
          \<lparr>opt_id = ''geometry'', opt_name = None, opt_description = None,
           opt_isRequired = Some True, opt_converter = Some PointConverter\<rparr>
          (Some \<lparr>longitude = 2, latitude = - 1, height = 10\<rparr>)) =
     Inr (Some
       \<lparr>inputIdentifier = ''geometry'',
        wps_inputValue =
          ''{"type":"FeatureCollection","features":[{"type":"Feature","geometry":{"type":"Point","coordinates":[114,-57,10]},"properties":{}}]}'',
        wps_inputType = ''ComplexData''\<rparr>)\<close>
proof -
  let ?opts = "\<lparr>opt_id = ''geometry'', opt_name = None, opt_description = None,
      opt_isRequired = Some True, opt_converter = Some PointConverter\<rparr>"
  have c: "inputToParameter sample_ext PointConverter geometry_input ?opts =
             Some (PointParameter ?opts None)"
    by (simp add: geometry_input_def complex_input_def PointConverter_def
          simpleGeoJsonDataConverter_inputToParameter_def ComplexData_Schema_def
          indexOf_def lastIndexOf_def substring_def)
  note t = converters_serialize_their_parameters
    [where ext = sample_ext and converter = PointConverter and input = geometry_input
       and opts = ?opts and created = "PointParameter ?opts None"
       and parameter = "PointParameter ?opts (Some \<lparr>longitude = 2, latitude = - 1, height = 10\<rparr>)",
     OF c]
  have "convertParameterToInput sample_ext
       (PointParameter ?opts (Some \<lparr>longitude = 2, latitude = - 1, height = 10\<rparr>)) =
     (case parameterToInput sample_ext PointConverter
             (PointParameter ?opts (Some \<lparr>longitude = 2, latitude = - 1, height = 10\<rparr>)) of
          Inl e \<Rightarrow> Inl e
        | Inr None \<Rightarrow> Inr None
        | Inr (Some r) \<Rightarrow>
            (case inputValue r of
               None \<Rightarrow> Inr None
             | Some v \<Rightarrow>
                 Inr (Some \<lparr>inputIdentifier = opt_id ?opts, wps_inputValue = v,
                            wps_inputType = inputType r\<rparr>)))"
    using t by simp
  with c show ?thesis
    by (simp add: PointConverter_def simpleGeoJsonDataConverter_parameterToInput_def
          PointParameter_formatValueForUrl_def PointParameter_getGeoJsonFeature_def
          quoteJSONString_def escapeJSONChar_def sample_ext_def int_text_def)
qed

text \<open>
  The claim C7 as stated fails: for the rectangle parameter made from a bounding box input,
  while it has no value, \<open>parameterToInput\<close> returns nothing, and so no input type.
\<close>

theorem converters_serialize_their_parameters_counterexample:
  "inputToParameter sample_ext RectangleConverter extent_input sample_options =
     Some (RectangleParameter sample_options ''EPSG:4326'' None)
   \<and> parameterToInput sample_ext RectangleConverter
       (RectangleParameter sample_options ''EPSG:4326'' None) = Inr None
   \<and> convertParameterToInput sample_ext (RectangleParameter sample_options ''EPSG:4326'' None) =
       Inr None"
  by (simp add: extent_input_def RectangleConverter_inputToParameter_def sample_ext_def isDefined_def
        RectangleConverter_parameterToInput_def convertParameterToInput_def sample_options_def)

end
